theory Spec2Isabelle
  imports Complex_Main
begin

section \<open>JavaScript strings, numbers and values\<close>

text \<open>
  A JavaScript string is a sequence of UTF-16 code units; a code unit is a natural
  number. \<open>js ''abc''\<close> is the string literal \<^verbatim>\<open>'abc'\<close>, and \<open>ch CHR ''/''\<close> the
  code unit of an ASCII character.
\<close>

type_synonym jsstring = "nat list"

abbreviation ch :: "char \<Rightarrow> nat" where
  "ch c \<equiv> of_char c"

definition js :: "string \<Rightarrow> jsstring" where
  "js s = map of_char s"

text \<open>
  A Number is a finite value, NaN or an infinity. Finite values are kept as exact
  rationals: the rounding of IEEE doubles is not part of the model, the overflow to
  Infinity of a numeric string is (\<open>round_double\<close> below).
\<close>

datatype jsnum = Finite rat | NaN | PosInfinity | NegInfinity

text \<open>
  The values route configurations, parsed JSON and response bodies are made of. An
  object is the list of its own properties in insertion order, with distinct keys.
\<close>

datatype jsval =
    JUndefined
  | JNull
  | JBool bool
  | JNum jsnum
  | JStr jsstring
  | JArr "jsval list"
  | JObj "(jsstring \<times> jsval) list"

text \<open>What a \<^verbatim>\<open>throw\<close> carries: the constructor of the error object and its message.\<close>

datatype exn =
    Error jsstring
  | TypeError jsstring
  | SyntaxError jsstring
  | URIError jsstring

fun message :: "exn \<Rightarrow> jsstring" where
  "message (Error m) = m"
| "message (TypeError m) = m"
| "message (SyntaxError m) = m"
| "message (URIError m) = m"

text \<open>ToBoolean: the falsy values are undefined, null, false, 0, NaN and the empty string.\<close>

fun truthy :: "jsval \<Rightarrow> bool" where
  "truthy JUndefined = False"
| "truthy JNull = False"
| "truthy (JBool b) = b"
| "truthy (JNum (Finite r)) = (r \<noteq> 0)"
| "truthy (JNum NaN) = False"
| "truthy (JNum _) = True"
| "truthy (JStr s) = (s \<noteq> [])"
| "truthy (JArr _) = True"
| "truthy (JObj _) = True"

text \<open>\<^verbatim>\<open>a || b\<close>\<close>

definition js_or :: "jsval \<Rightarrow> jsval \<Rightarrow> jsval" where
  "js_or a b = (if truthy a then a else b)"

text \<open>\<^verbatim>\<open>v == null\<close>: true of null and undefined only.\<close>

fun nullish :: "jsval \<Rightarrow> bool" where
  "nullish JUndefined = True"
| "nullish JNull = True"
| "nullish _ = False"

text \<open>
  Property read \<^verbatim>\<open>v[k]\<close> and \<^verbatim>\<open>v.k\<close> on a value that is not null or undefined, for the
  property names this program reads (none of them is an array index, \<^verbatim>\<open>length\<close> or a
  name on a built-in prototype): an own property of an object, undefined otherwise.
\<close>

fun get_prop :: "jsval \<Rightarrow> jsstring \<Rightarrow> jsval" where
  "get_prop (JObj kvs) k = (case map_of kvs k of Some v \<Rightarrow> v | None \<Rightarrow> JUndefined)"
| "get_prop _ k = JUndefined"

text \<open>
  \<^verbatim>\<open>v[k]\<close> where \<open>v\<close> may be null or undefined: reading a property of either throws a
  TypeError.
\<close>

definition cannot_read :: "jsstring \<Rightarrow> jsstring \<Rightarrow> exn" where
  "cannot_read what k =
     TypeError (js ''Cannot read properties of '' @ what @ js '' (reading '' @ [39] @ k @ [39] @ js '')'')"

fun read_prop :: "jsval \<Rightarrow> jsstring \<Rightarrow> exn + jsval" where
  "read_prop JNull k = Inl (cannot_read (js ''null'') k)"
| "read_prop JUndefined k = Inl (cannot_read (js ''undefined'') k)"
| "read_prop v k = Inr (get_prop v k)"

text \<open>
  Property write on an object: an existing key keeps its place and gets the new value,
  a new key goes last.
\<close>

fun set_prop :: "(jsstring \<times> jsval) list \<Rightarrow> jsstring \<Rightarrow> jsval \<Rightarrow> (jsstring \<times> jsval) list" where
  "set_prop [] k v = [(k, v)]"
| "set_prop ((k', v') # kvs) k v =
     (if k' = k then (k, v) # kvs else (k', v') # set_prop kvs k v)"

text \<open>\<^verbatim>\<open>String.prototype.toUpperCase\<close>, for the ASCII letters (HTTP methods are ASCII tokens).\<close>

definition upper_unit :: "nat \<Rightarrow> nat" where
  "upper_unit c = (if ch CHR ''a'' \<le> c \<and> c \<le> ch CHR ''z'' then c - 32 else c)"

definition toUpperCase :: "jsstring \<Rightarrow> jsstring" where
  "toUpperCase s = map upper_unit s"

section \<open>Compiled route patterns\<close>

text \<open>
  A RegExp object, by what this program observes of it: its \<^verbatim>\<open>source\<close> and the result of
  \<^verbatim>\<open>test\<close> on a string (the patterns carry no \<^verbatim>\<open>g\<close> or \<^verbatim>\<open>y\<close> flag, so \<^verbatim>\<open>test\<close> keeps no state).
\<close>

record regexp =
  source :: jsstring
  test :: "jsstring \<Rightarrow> bool"

record route_pattern =
  verb :: jsstring
  pattern :: regexp
  config :: jsval

section \<open>findMatchingRoute\<close>

text \<open>\<^verbatim>\<open>path.split(/[?#]/)[0]\<close>: the text before the first \<^verbatim>\<open>?\<close> or \<^verbatim>\<open>#\<close>.\<close>

definition pathWithoutQuery :: "jsstring \<Rightarrow> jsstring" where
  "pathWithoutQuery path = takeWhile (\<lambda>c. c \<noteq> ch CHR ''?'' \<and> c \<noteq> ch CHR ''#'') path"

subsection \<open>decodeURIComponent\<close>

text \<open>
  The built-in, after the Decode operation of ECMA-262 with an empty set of reserved
  characters. Every failure is a URIError.
\<close>

definition uri_malformed :: exn where
  "uri_malformed = URIError (js ''URI malformed'')"

definition hex_value :: "nat \<Rightarrow> nat option" where
  "hex_value c =
     (if ch CHR ''0'' \<le> c \<and> c \<le> ch CHR ''9'' then Some (c - ch CHR ''0'')
      else if ch CHR ''A'' \<le> c \<and> c \<le> ch CHR ''F'' then Some (c - ch CHR ''A'' + 10)
      else if ch CHR ''a'' \<le> c \<and> c \<le> ch CHR ''f'' then Some (c - ch CHR ''a'' + 10)
      else None)"

text \<open>The two hexadecimal digits at the head of a string, as an octet.\<close>

fun hex_octet :: "jsstring \<Rightarrow> nat option" where
  "hex_octet (h1 # h2 # _) =
     (case (hex_value h1, hex_value h2) of
        (Some a, Some b) \<Rightarrow> Some (16 * a + b)
      | _ \<Rightarrow> None)"
| "hex_octet _ = None"

text \<open>The number of leading 1 bits of an octet.\<close>

definition leading_ones :: "nat \<Rightarrow> nat" where
  "leading_ones b =
     (if b < 128 then 0 else if b < 192 then 1 else if b < 224 then 2
      else if b < 240 then 3 else if b < 248 then 4 else 5)"

text \<open>\<open>k\<close> further escapes \<^verbatim>\<open>%XX\<close> at the head of a string.\<close>

fun continuation_octets :: "nat \<Rightarrow> jsstring \<Rightarrow> nat list option" where
  "continuation_octets 0 s = Some []"
| "continuation_octets (Suc k) (p # s) =
     (if p = ch CHR ''%'' then
        (case hex_octet s of
           None \<Rightarrow> None
         | Some b \<Rightarrow> map_option (Cons b) (continuation_octets k (drop 2 s)))
      else None)"
| "continuation_octets (Suc k) [] = None"

text \<open>
  The code point a sequence of 2 to 4 octets encodes in UTF-8, if it is well formed:
  continuation octets are \<open>10xxxxxx\<close>, the encoding is the shortest one, and the code
  point is no surrogate and at most \<open>0x10FFFF\<close>.
\<close>

definition utf8_code_point :: "nat list \<Rightarrow> nat option" where
  "utf8_code_point octets =
     (case octets of
        [b0, b1] \<Rightarrow>
          (let v = (b0 mod 32) * 64 + b1 mod 64
           in if leading_ones b1 = 1 \<and> 128 \<le> v then Some v else None)
      | [b0, b1, b2] \<Rightarrow>
          (let v = ((b0 mod 16) * 64 + b1 mod 64) * 64 + b2 mod 64
           in if leading_ones b1 = 1 \<and> leading_ones b2 = 1 \<and> 2048 \<le> v
                 \<and> \<not> (55296 \<le> v \<and> v \<le> 57343)
              then Some v else None)
      | [b0, b1, b2, b3] \<Rightarrow>
          (let v = (((b0 mod 8) * 64 + b1 mod 64) * 64 + b2 mod 64) * 64 + b3 mod 64
           in if leading_ones b1 = 1 \<and> leading_ones b2 = 1 \<and> leading_ones b3 = 1
                 \<and> 65536 \<le> v \<and> v \<le> 1114111
              then Some v else None)
      | _ \<Rightarrow> None)"

definition utf16_encode :: "nat \<Rightarrow> jsstring" where
  "utf16_encode v =
     (if v < 65536 then [v]
      else [55296 + (v - 65536) div 1024, 56320 + (v - 65536) mod 1024])"

fun decodeURIComponent :: "jsstring \<Rightarrow> exn + jsstring" where
  "decodeURIComponent [] = Inr []"
| "decodeURIComponent (c # cs) =
     (if c \<noteq> ch CHR ''%'' then map_sum id (Cons c) (decodeURIComponent cs)
      else
        (case hex_octet cs of
           None \<Rightarrow> Inl uri_malformed
         | Some b \<Rightarrow>
             (let n = leading_ones b in
              if n = 0 then map_sum id (Cons b) (decodeURIComponent (drop 2 cs))
              else if n = 1 \<or> 4 < n then Inl uri_malformed
              else
                (case continuation_octets (n - 1) (drop 2 cs) of
                   None \<Rightarrow> Inl uri_malformed
                 | Some octets \<Rightarrow>
                     (case utf8_code_point (b # octets) of
                        None \<Rightarrow> Inl uri_malformed
                      | Some v \<Rightarrow>
                          map_sum id (append (utf16_encode v))
                            (decodeURIComponent (drop (2 + 3 * (n - 1)) cs)))))))"

subsection \<open>Path normalisation\<close>

text \<open>\<^verbatim>\<open>.replace(/\\/g, '/')\<close>: every backslash (code unit 92) becomes a slash.\<close>

definition backslashes_to_slashes :: "jsstring \<Rightarrow> jsstring" where
  "backslashes_to_slashes s = map (\<lambda>c. if c = 92 then ch CHR ''/'' else c) s"

text \<open>\<^verbatim>\<open>.replace(/\/+/g, '/')\<close>: every run of slashes becomes one slash.\<close>

fun collapse_slashes :: "jsstring \<Rightarrow> jsstring" where
  "collapse_slashes (c # d # cs) =
     (if c = ch CHR ''/'' \<and> d = ch CHR ''/'' then collapse_slashes (d # cs)
      else c # collapse_slashes (d # cs))"
| "collapse_slashes cs = cs"

text \<open>The characters \<^verbatim>\<open>.\<close> does not match: LF, CR, U+2028 and U+2029.\<close>

definition is_line_terminator :: "nat \<Rightarrow> bool" where
  "is_line_terminator c \<longleftrightarrow> c = 10 \<or> c = 13 \<or> c = 8232 \<or> c = 8233"

text \<open>
  \<^verbatim>\<open>.replace(/(.+?)\/+$/, '$1')\<close>, the first match only. A match starts at the leftmost
  index from which one or more characters other than line terminators, as few as
  possible, are followed by slashes up to the end of the string; it is replaced by those
  characters. With \<open>body\<close> the string without its final run of \<open>k\<close> slashes: when
  \<open>body\<close> ends in a character \<^verbatim>\<open>.\<close> matches, the group ends where \<open>body\<close> ends and
  the whole run is dropped; otherwise the group can only be the first slash of the run,
  which is kept while the \<open>k - 1\<close> slashes after it are dropped, and a run of one slash
  does not match at all.
\<close>

definition strip_trailing_slashes :: "jsstring \<Rightarrow> jsstring" where
  "strip_trailing_slashes s =
     (let body = rev (dropWhile (\<lambda>c. c = ch CHR ''/'') (rev s));
          k = length s - length body
      in if k = 0 then s
         else if body \<noteq> [] \<and> \<not> is_line_terminator (last body) then body
         else if 2 \<le> k then body @ [ch CHR ''/'']
         else s)"

text \<open>The body of the \<^verbatim>\<open>try\<close> block: it throws what \<^verbatim>\<open>decodeURIComponent\<close> throws.\<close>

definition normalizePath :: "jsstring \<Rightarrow> exn + jsstring" where
  "normalizePath path =
     map_sum id (\<lambda>decodedPath.
         strip_trailing_slashes (collapse_slashes (backslashes_to_slashes decodedPath)))
       (decodeURIComponent (pathWithoutQuery path))"

subsection \<open>Candidates and the most specific one\<close>

definition matchesRoute :: "jsstring \<Rightarrow> jsstring \<Rightarrow> route_pattern \<Rightarrow> bool" where
  "matchesRoute normalizedPath method r \<longleftrightarrow>
     test (pattern r) normalizedPath \<and> (verb r = js ''*'' \<or> toUpperCase method = verb r)"

definition route_candidates :: "route_pattern list \<Rightarrow> jsstring \<Rightarrow> jsstring \<Rightarrow> route_pattern list" where
  "route_candidates routePatterns normalizedPath method =
     filter (matchesRoute normalizedPath method) routePatterns"

text \<open>\<^verbatim>\<open>pattern.source.length\<close>\<close>

definition source_length :: "route_pattern \<Rightarrow> nat" where
  "source_length r = length (source (pattern r))"

text \<open>The callback of \<^verbatim>\<open>reduce\<close>: \<^verbatim>\<open>b\<close> replaces \<^verbatim>\<open>a\<close> only when its source is strictly longer.\<close>

definition more_specific :: "route_pattern \<Rightarrow> route_pattern \<Rightarrow> route_pattern" where
  "more_specific a b = (if source_length b > source_length a then b else a)"

text \<open>
  \<^verbatim>\<open>Array.prototype.reduce\<close> without an initial value: a left fold that starts from the
  first element, and a TypeError on an empty array.
\<close>

fun reduce :: "('a \<Rightarrow> 'a \<Rightarrow> 'a) \<Rightarrow> 'a list \<Rightarrow> exn + 'a" where
  "reduce f [] = Inl (TypeError (js ''Reduce of empty array with no initial value''))"
| "reduce f (x # xs) = Inr (foldl f x xs)"

text \<open>
  The result is \<open>Inr None\<close> for \<^verbatim>\<open>undefined\<close>, \<open>Inr (Some r)\<close> for a route and \<open>Inl e\<close>
  when the call throws \<open>e\<close>.
\<close>

definition findMatchingRoute ::
  "route_pattern list \<Rightarrow> jsstring \<Rightarrow> jsstring \<Rightarrow> exn + route_pattern option" where
  "findMatchingRoute routePatterns path method =
     (case normalizePath path of
        Inl e \<Rightarrow> Inr None
      | Inr normalizedPath \<Rightarrow>
          (let candidates = route_candidates routePatterns normalizedPath method
           in if length candidates = 0 then Inr None
              else map_sum id Some (reduce more_specific candidates)))"

section \<open>computeRoutePatterns\<close>

definition DEFAULT_NETWORK :: jsstring where
  "DEFAULT_NETWORK = js ''bch''"

text \<open>
  In the definitions below \<open>key\<close> is the variable the source calls \<^verbatim>\<open>pattern\<close> (a key of
  the routes object); \<open>pattern\<close> is the field of a compiled route.
\<close>

text \<open>Decimal digits of a natural number: the name of an array index.\<close>

fun decimal :: "nat \<Rightarrow> jsstring" where
  "decimal n = (if n < 10 then [ch CHR ''0'' + n] else decimal (n div 10) @ [ch CHR ''0'' + n mod 10])"

declare decimal.simps [simp del]

text \<open>
  The own enumerable properties a spread \<^verbatim>\<open>...value\<close> copies: an object's properties, an
  array's elements and a string's characters under their indices, nothing of any other
  value.
\<close>

fun own_entries :: "jsval \<Rightarrow> (jsstring \<times> jsval) list" where
  "own_entries (JObj kvs) = kvs"
| "own_entries (JArr xs) = map (\<lambda>(i, x). (decimal i, x)) (enumerate 0 xs)"
| "own_entries (JStr s) = map (\<lambda>(i, c). (decimal i, JStr [c])) (enumerate 0 s)"
| "own_entries _ = []"

text \<open>\<^verbatim>\<open>{ ...obj, ...value }\<close> and \<^verbatim>\<open>Object.fromEntries\<close>: properties are written one by one.\<close>

definition assign_entries ::
  "(jsstring \<times> jsval) list \<Rightarrow> (jsstring \<times> jsval) list \<Rightarrow> (jsstring \<times> jsval) list" where
  "assign_entries obj kvs = foldl (\<lambda>acc (k, v). set_prop acc k v) obj kvs"

definition Object_fromEntries :: "(jsstring \<times> jsval) list \<Rightarrow> (jsstring \<times> jsval) list" where
  "Object_fromEntries kvs = assign_entries [] kvs"

text \<open>\<^verbatim>\<open>typeof value === 'string' || typeof value === 'number'\<close>\<close>

fun is_string_or_number :: "jsval \<Rightarrow> bool" where
  "is_string_or_number (JStr _) = True"
| "is_string_or_number (JNum _) = True"
| "is_string_or_number _ = False"

text \<open>
  The first half of \<^verbatim>\<open>computeRoutePatterns\<close>. \<open>routes\<close> is the routes object as
  \<^verbatim>\<open>Object.entries\<close> lists it; \<^verbatim>\<open>Object.entries\<close> of the object that
  \<^verbatim>\<open>Object.fromEntries\<close> builds lists the properties in the order they were written.
\<close>

definition normalizedValue :: "(jsstring \<times> jsval) list \<Rightarrow> jsval \<Rightarrow> jsval" where
  "normalizedValue routes value =
     (let network = js_or (get_prop (JObj routes) (js ''network'')) (JStr DEFAULT_NETWORK)
      in if is_string_or_number value
         then JObj [(js ''price'', value), (js ''network'', network)]
         else JObj (assign_entries [(js ''network'', network)] (own_entries value)))"

definition normalizedRoutes :: "(jsstring \<times> jsval) list \<Rightarrow> (jsstring \<times> jsval) list" where
  "normalizedRoutes routes =
     Object_fromEntries
       (map (\<lambda>(key, value). (key, normalizedValue routes value))
          (filter (\<lambda>(key, value). key \<noteq> js ''network'') routes))"

subsection \<open>Verb and path of a pattern key\<close>

text \<open>The characters of \<^verbatim>\<open>\s\<close>: the white space and line terminators of ECMA-262.\<close>

definition is_space :: "nat \<Rightarrow> bool" where
  "is_space c \<longleftrightarrow>
     (9 \<le> c \<and> c \<le> 13) \<or> c = 32 \<or> c = 160 \<or> c = 5760 \<or> (8192 \<le> c \<and> c \<le> 8202)
     \<or> c = 8232 \<or> c = 8233 \<or> c = 8239 \<or> c = 8287 \<or> c = 12288 \<or> c = 65279"

text \<open>
  \<^verbatim>\<open>s.split(/\s+/)\<close>: the pieces between the maximal runs of white space. \<open>pieces\<close>
  reads the string from the left; \<open>gap\<close> says that the last character read was white
  space, \<open>acc\<close> holds the current piece, reversed.
\<close>

fun pieces :: "bool \<Rightarrow> jsstring \<Rightarrow> jsstring \<Rightarrow> jsstring list" where
  "pieces gap acc [] = [rev acc]"
| "pieces gap acc (c # cs) =
     (if is_space c then (if gap then pieces True acc cs else rev acc # pieces True [] cs)
      else pieces False (c # acc) cs)"

definition split_spaces :: "jsstring \<Rightarrow> jsstring list" where
  "split_spaces s = pieces False [] s"

text \<open>\<^verbatim>\<open>parts[i]\<close>: undefined (\<open>None\<close>) past the end of the array.\<close>

definition element :: "'a list \<Rightarrow> nat \<Rightarrow> 'a option" where
  "element xs i = (if i < length xs then Some (xs ! i) else None)"

text \<open>\<^verbatim>\<open>a || b\<close> on strings that may be undefined: the empty string and undefined are falsy.\<close>

fun string_or :: "jsstring option \<Rightarrow> jsstring option \<Rightarrow> jsstring option" where
  "string_or (Some []) b = b"
| "string_or (Some s) b = Some s"
| "string_or None b = b"

definition key_parts :: "jsstring \<Rightarrow> jsstring list" where
  "key_parts key =
     (if ch CHR '' '' \<in> set key then split_spaces key else [js ''*'', key])"

definition key_verb :: "jsstring \<Rightarrow> jsstring" where
  "key_verb key =
     toUpperCase (case string_or (element (key_parts key) 0) (Some (js ''*'')) of
                    Some v \<Rightarrow> v | None \<Rightarrow> js ''undefined'')"

definition key_path :: "jsstring \<Rightarrow> jsstring option" where
  "key_path key =
     string_or (element (key_parts key) 1) (element (key_parts key) 0)"

subsection \<open>From a path to the text of a regular expression\<close>

text \<open>\<^verbatim>\<open>.replace(/[$()+.?^{|}]/g, '\\$&')\<close>: a backslash before each of these characters.\<close>

definition escape_metacharacters :: "jsstring \<Rightarrow> jsstring" where
  "escape_metacharacters s =
     concat (map (\<lambda>c. if c \<in> set (js ''$()+.?^{|}'') then [92, c] else [c]) s)"

text \<open>\<^verbatim>\<open>.replace(/\*/g, '.*?')\<close>\<close>

definition replace_stars :: "jsstring \<Rightarrow> jsstring" where
  "replace_stars s = concat (map (\<lambda>c. if c = ch CHR ''*'' then js ''.*?'' else [c]) s)"

text \<open>
  \<^verbatim>\<open>.replace(/\[([^\]]+)\]/g, '[^/]+')\<close>: scanning from the left, a \<^verbatim>\<open>[\<close> followed by one
  or more characters other than \<^verbatim>\<open>]\<close> and then a \<^verbatim>\<open>]\<close> is replaced, and the scan goes on
  after that \<^verbatim>\<open>]\<close>.
\<close>

function replace_brackets :: "jsstring \<Rightarrow> jsstring" where
  "replace_brackets [] = []"
| "replace_brackets (c # cs) =
     (let name = takeWhile (\<lambda>d. d \<noteq> ch CHR '']'') cs;
          rest = dropWhile (\<lambda>d. d \<noteq> ch CHR '']'') cs
      in if c = ch CHR ''['' \<and> name \<noteq> [] \<and> rest \<noteq> []
         then js ''[^/]+'' @ replace_brackets (tl rest)
         else c # replace_brackets cs)"
  by pat_completeness auto
termination
proof (relation "measure length")
  fix c :: nat and cs name rest :: jsstring
  assume "rest = dropWhile (\<lambda>d. d \<noteq> ch CHR '']'') cs"
  then have "length (tl rest) \<le> length cs"
    using length_dropWhile_le [of "\<lambda>d. d \<noteq> ch CHR '']''" cs] by simp
  then show "(tl rest, c # cs) \<in> measure length"
    by simp
qed simp_all

text \<open>\<^verbatim>\<open>.replace(/\//g, '\\/')\<close>\<close>

definition escape_slashes :: "jsstring \<Rightarrow> jsstring" where
  "escape_slashes s = concat (map (\<lambda>c. if c = ch CHR ''/'' then [92, c] else [c]) s)"

definition regexPattern :: "jsstring \<Rightarrow> jsstring" where
  "regexPattern path =
     js ''^'' @ escape_slashes (replace_brackets (replace_stars (escape_metacharacters path)))
       @ js ''$''"

subsection \<open>The compiled list\<close>

text \<open>
  \<^verbatim>\<open>Array.prototype.map\<close> with a callback that may throw: the elements are visited in
  order and the first exception ends the call.
\<close>

fun map_throwing :: "('a \<Rightarrow> exn + 'b) \<Rightarrow> 'a list \<Rightarrow> exn + 'b list" where
  "map_throwing f [] = Inr []"
| "map_throwing f (x # xs) =
     (case f x of
        Inl e \<Rightarrow> Inl e
      | Inr y \<Rightarrow> map_sum id (Cons y) (map_throwing f xs))"

text \<open>
  The callback of the second half. \<open>RegExp_i\<close> stands for \<^verbatim>\<open>new RegExp(_, 'i')\<close>, the
  host's constructor: it returns the compiled expression or throws a SyntaxError.
  \<^verbatim>\<open>!path\<close> holds of undefined and of the empty string.
\<close>

definition compileRoute ::
  "(jsstring \<Rightarrow> exn + regexp) \<Rightarrow> jsstring \<times> jsval \<Rightarrow> exn + route_pattern" where
  "compileRoute RegExp_i entry =
     (case entry of (key, routeConfig) \<Rightarrow>
        (case key_path key of
           None \<Rightarrow> Inl (Error (js ''Invalid route pattern: '' @ key))
         | Some path \<Rightarrow>
             if path = [] then Inl (Error (js ''Invalid route pattern: '' @ key))
             else
               (case RegExp_i (regexPattern path) of
                  Inl e \<Rightarrow> Inl e
                | Inr re \<Rightarrow>
                    Inr \<lparr> verb = key_verb key, pattern = re, config = routeConfig \<rparr>)))"

definition computeRoutePatterns ::
  "(jsstring \<Rightarrow> exn + regexp) \<Rightarrow> (jsstring \<times> jsval) list \<Rightarrow> exn + route_pattern list" where
  "computeRoutePatterns RegExp_i routes =
     map_throwing (compileRoute RegExp_i) (normalizedRoutes routes)"

section \<open>A RegExp constructor for the expressions computeRoutePatterns writes\<close>

text \<open>
  \<^verbatim>\<open>new RegExp(_, 'i')\<close> for the expressions that \<open>regexPattern\<close> writes from a path
  without backslash and without line terminator: between \<^verbatim>\<open>^\<close> and \<^verbatim>\<open>$\<close>, a sequence of
  escaped metacharacters, \<^verbatim>\<open>.*?\<close>, \<^verbatim>\<open>[^\/]+\<close>, the empty class \<^verbatim>\<open>[]\<close> (what is left of a
  \<^verbatim>\<open>[]\<close> in the path) and other characters standing for themselves. An unterminated
  \<^verbatim>\<open>[\<close> is the SyntaxError it is in JavaScript. Any other expression is refused with the
  same error, although JavaScript compiles some of them: the theorems about
  \<open>computeRoutePatterns\<close> hold for every constructor, and this one serves to run it.
\<close>

datatype atom =
    Lit nat
  | AnyLazy
  | Segment
  | Never

fun rx_parse :: "jsstring \<Rightarrow> atom list option" where
  "rx_parse [] = Some []"
| "rx_parse (c # cs) =
     (if c = 92 then
        (case cs of
           [] \<Rightarrow> None
         | d # ds \<Rightarrow>
             if d \<in> set (js ''$()+.?^{|}/'') then map_option (Cons (Lit d)) (rx_parse ds)
             else None)
      else if c = ch CHR ''.'' then
        (if take 2 cs = js ''*?'' then map_option (Cons AnyLazy) (rx_parse (drop 2 cs))
         else None)
      else if c = ch CHR ''['' then
        (if take 5 cs = [ch CHR ''^'', 92, ch CHR ''/'', ch CHR '']'', ch CHR ''+'']
         then map_option (Cons Segment) (rx_parse (drop 5 cs))
         else if take 1 cs = js '']'' then map_option (Cons Never) (rx_parse (drop 1 cs))
         else None)
      else if c \<in> set (js ''$()*+?^{|}'') \<or> is_line_terminator c then None
      else map_option (Cons (Lit c)) (rx_parse cs))"

text \<open>
  Whether the whole string matches the atoms. Under the \<^verbatim>\<open>i\<close> flag a character matches a
  literal when both have the same upper case (modelled for ASCII letters); \<^verbatim>\<open>.\<close> matches
  any character but a line terminator, \<^verbatim>\<open>[^\/]\<close> any character but a slash, \<^verbatim>\<open>[]\<close> none.
\<close>

fun rx_match :: "atom list \<Rightarrow> jsstring \<Rightarrow> bool" where
  "rx_match [] s = (s = [])"
| "rx_match (Lit c # atoms) s =
     (case s of [] \<Rightarrow> False | x # xs \<Rightarrow> upper_unit x = upper_unit c \<and> rx_match atoms xs)"
| "rx_match (AnyLazy # atoms) s =
     (if rx_match atoms s then True
      else (case s of [] \<Rightarrow> False
            | x # xs \<Rightarrow> \<not> is_line_terminator x \<and> rx_match (AnyLazy # atoms) xs))"
| "rx_match (Segment # atoms) s =
     (case s of [] \<Rightarrow> False
      | x # xs \<Rightarrow>
          x \<noteq> ch CHR ''/'' \<and> (if rx_match atoms xs then True else rx_match (Segment # atoms) xs))"
| "rx_match (Never # atoms) s = False"

definition invalid_regexp :: exn where
  "invalid_regexp = SyntaxError (js ''Invalid regular expression'')"

definition RegExp_fragment :: "jsstring \<Rightarrow> exn + regexp" where
  "RegExp_fragment p =
     (case p of
        [] \<Rightarrow> Inl invalid_regexp
      | c # cs \<Rightarrow>
          if c = ch CHR ''^'' \<and> cs \<noteq> [] \<and> last cs = ch CHR ''$'' then
            (case rx_parse (butlast cs) of
               None \<Rightarrow> Inl invalid_regexp
             | Some atoms \<Rightarrow> Inr \<lparr> source = p, test = rx_match atoms \<rparr>)
          else Inl invalid_regexp)"

section \<open>resolveMinAmountRequired\<close>

definition DEFAULT_MIN_AMOUNT :: int where
  "DEFAULT_MIN_AMOUNT = 1000"

subsection \<open>Number and String\<close>

text \<open>
  The double nearest to a real number is an infinity from \<open>2^1024 - 2^970\<close> on and zero up
  to \<open>2^-1075\<close>; in between, the model keeps the number as it is.
\<close>

definition round_double :: "rat \<Rightarrow> jsnum" where
  "round_double r =
     (if 2 ^ 1024 - 2 ^ 970 \<le> r then PosInfinity
      else if r \<le> - (2 ^ 1024 - 2 ^ 970) then NegInfinity
      else if \<bar>r\<bar> \<le> 1 / 2 ^ 1075 then Finite 0
      else Finite r)"

definition is_digit :: "nat \<Rightarrow> bool" where
  "is_digit c \<longleftrightarrow> ch CHR ''0'' \<le> c \<and> c \<le> ch CHR ''9''"

text \<open>The number a string of digits writes in a base from 2 to 16.\<close>

definition digits_value :: "nat \<Rightarrow> jsstring \<Rightarrow> nat" where
  "digits_value base ds = foldl (\<lambda>a c. base * a + the (hex_value c)) 0 ds"

definition digits_in :: "nat \<Rightarrow> jsstring \<Rightarrow> bool" where
  "digits_in base ds \<longleftrightarrow>
     ds \<noteq> [] \<and> list_all (\<lambda>c. case hex_value c of None \<Rightarrow> False | Some d \<Rightarrow> d < base) ds"

text \<open>\<^verbatim>\<open>String.prototype.trim\<close>\<close>

definition trim :: "jsstring \<Rightarrow> jsstring" where
  "trim s = rev (dropWhile is_space (rev (dropWhile is_space s)))"

text \<open>
  The exponent part of a decimal literal: nothing, or \<^verbatim>\<open>e\<close> or \<^verbatim>\<open>E\<close>, an optional sign and
  one or more digits.
\<close>

definition exponent_part :: "jsstring \<Rightarrow> int option" where
  "exponent_part s =
     (case s of
        [] \<Rightarrow> Some 0
      | c # r \<Rightarrow>
          if c = ch CHR ''e'' \<or> c = ch CHR ''E'' then
            (let negative = (take 1 r = js ''-'');
                 ds = (if take 1 r = js ''-'' \<or> take 1 r = js ''+'' then drop 1 r else r)
             in if digits_in 10 ds
                then Some ((if negative then - 1 else 1) * int (digits_value 10 ds))
                else None)
          else None)"

text \<open>
  An unsigned decimal literal: digits with an optional fraction, or a dot and digits,
  then an optional exponent.
\<close>

definition unsigned_decimal :: "jsstring \<Rightarrow> rat option" where
  "unsigned_decimal s =
     (let ip = takeWhile is_digit s;
          r1 = dropWhile is_digit s;
          dot = (take 1 r1 = js ''.'');
          fp = (if dot then takeWhile is_digit (drop 1 r1) else []);
          r2 = (if dot then dropWhile is_digit (drop 1 r1) else r1)
      in if ip = [] \<and> fp = [] then None
         else
           (case exponent_part r2 of
              None \<Rightarrow> None
            | Some e \<Rightarrow>
                (let m = of_nat (digits_value 10 ip) + of_nat (digits_value 10 fp) / 10 ^ length fp
                 in Some (if 0 \<le> e then m * 10 ^ nat e else m / 10 ^ nat (- e)))))"

text \<open>
  ToNumber of a string (the StringNumericLiteral grammar): white space is trimmed, the
  empty string is 0, a literal in base 16, 8 or 2 has no sign, a decimal literal or
  \<^verbatim>\<open>Infinity\<close> may have one, and anything else is NaN.
\<close>

definition StringToNumber :: "jsstring \<Rightarrow> jsnum" where
  "StringToNumber s =
     (let t = trim s;
          negative = (take 1 t = js ''-'');
          u = (if take 1 t = js ''-'' \<or> take 1 t = js ''+'' then drop 1 t else t)
      in if t = [] then Finite 0
         else if take 2 t = js ''0x'' \<or> take 2 t = js ''0X'' then
           (if digits_in 16 (drop 2 t) then round_double (of_nat (digits_value 16 (drop 2 t))) else NaN)
         else if take 2 t = js ''0o'' \<or> take 2 t = js ''0O'' then
           (if digits_in 8 (drop 2 t) then round_double (of_nat (digits_value 8 (drop 2 t))) else NaN)
         else if take 2 t = js ''0b'' \<or> take 2 t = js ''0B'' then
           (if digits_in 2 (drop 2 t) then round_double (of_nat (digits_value 2 (drop 2 t))) else NaN)
         else if u = js ''Infinity'' then (if negative then NegInfinity else PosInfinity)
         else
           (case unsigned_decimal u of
              None \<Rightarrow> NaN
            | Some r \<Rightarrow> round_double (if negative then - r else r)))"

text \<open>
  \<^verbatim>\<open>Number(v)\<close>. An array is converted through its string: the empty array through the
  empty string, an array of one element through the string of that element (empty for
  null and undefined), and the string of a longer array holds a comma, which no numeric
  literal does. The string of a plain object is no numeric literal either.
\<close>

fun Number :: "jsval \<Rightarrow> jsnum" where
  "Number JUndefined = NaN"
| "Number JNull = Finite 0"
| "Number (JBool b) = Finite (if b then 1 else 0)"
| "Number (JNum n) = n"
| "Number (JStr s) = StringToNumber s"
| "Number (JObj kvs) = NaN"
| "Number (JArr []) = Finite 0"
| "Number (JArr [JUndefined]) = Finite 0"
| "Number (JArr [JNull]) = Finite 0"
| "Number (JArr [JBool b]) = NaN"
| "Number (JArr [JNum n]) = n"
| "Number (JArr [JStr s]) = StringToNumber s"
| "Number (JArr [JObj kvs]) = NaN"
| "Number (JArr [JArr xs]) = Number (JArr xs)"
| "Number (JArr (x # y # xs)) = NaN"

text \<open>\<^verbatim>\<open>Number.isFinite\<close>, and the comparisons with 0 (false of NaN).\<close>

fun isFinite :: "jsnum \<Rightarrow> bool" where
  "isFinite (Finite r) = True"
| "isFinite _ = False"

fun positive :: "jsnum \<Rightarrow> bool" where
  "positive (Finite r) = (0 < r)"
| "positive PosInfinity = True"
| "positive _ = False"

fun not_positive :: "jsnum \<Rightarrow> bool" where
  "not_positive (Finite r) = (r \<le> 0)"
| "not_positive NegInfinity = True"
| "not_positive _ = False"

text \<open>\<^verbatim>\<open>Math.floor\<close> of a finite number, as the integer it is.\<close>

fun Math_floor :: "jsnum \<Rightarrow> int" where
  "Math_floor (Finite r) = \<lfloor>r\<rfloor>"
| "Math_floor _ = 0"

text \<open>
  \<^verbatim>\<open>String(n)\<close> for an integral number: its decimal digits below \<open>10^21\<close>, and from there
  on the digits up to the last one that is not zero, a dot after the first, and the
  exponent.
\<close>

definition exponential :: "nat \<Rightarrow> jsstring" where
  "exponential n =
     (let ds = decimal n;
          significant = rev (dropWhile (\<lambda>c. c = ch CHR ''0'') (rev ds))
      in take 1 significant
         @ (if 1 < length significant then js ''.'' @ drop 1 significant else [])
         @ js ''e+'' @ decimal (length ds - 1))"

definition numberToString :: "int \<Rightarrow> jsstring" where
  "numberToString n =
     (if n < 0 then js ''-'' else [])
     @ (if \<bar>n\<bar> < 10 ^ 21 then decimal (nat \<bar>n\<bar>) else exponential (nat \<bar>n\<bar>))"

subsection \<open>The amount of a route\<close>

text \<open>\<^verbatim>\<open>/sat(s|oshis)?$/i\<close>: the string ends in sat, sats or satoshis, in any case.\<close>

definition ends_with :: "jsstring \<Rightarrow> jsstring \<Rightarrow> bool" where
  "ends_with suffix s \<longleftrightarrow> take (length suffix) (rev s) = rev suffix"

definition satoshi_suffix :: "jsstring \<Rightarrow> bool" where
  "satoshi_suffix s \<longleftrightarrow>
     (let u = toUpperCase s
      in ends_with (js ''SAT'') u \<or> ends_with (js ''SATS'') u \<or> ends_with (js ''SATOSHIS'') u)"

text \<open>\<^verbatim>\<open>/^[0-9]+$/u\<close>\<close>

definition all_digits :: "jsstring \<Rightarrow> bool" where
  "all_digits s \<longleftrightarrow> s \<noteq> [] \<and> list_all is_digit s"

text \<open>The branch of a string price: the amount it gives, or nothing to fall through.\<close>

definition string_price :: "jsstring \<Rightarrow> int option" where
  "string_price price =
     (let trimmed = trim price;
          numeric = StringToNumber (filter (\<lambda>c. is_digit c \<or> c = ch CHR ''.'') trimmed)
      in if isFinite numeric \<and> positive numeric
            \<and> (satoshi_suffix trimmed \<or> all_digits trimmed)
         then Some (Math_floor numeric) else None)"

text \<open>
  The parameter has the default \<^verbatim>\<open>{}\<close>, which stands in for undefined; reading
  \<^verbatim>\<open>minAmountRequired\<close> of null throws.
\<close>

definition resolveMinAmountRequired :: "jsval \<Rightarrow> exn + int" where
  "resolveMinAmountRequired routeConfig =
     (let routeConfig = (case routeConfig of JUndefined \<Rightarrow> JObj [] | v \<Rightarrow> v)
      in case read_prop routeConfig (js ''minAmountRequired'') of
           Inl e \<Rightarrow> Inl e
         | Inr configured \<Rightarrow>
             if \<not> nullish configured then
               (let minAmount = Number configured
                in if \<not> isFinite minAmount \<or> not_positive minAmount
                   then Inl (Error (js ''minAmountRequired must be a positive number''))
                   else Inr (Math_floor minAmount))
             else
               (case get_prop routeConfig (js ''price'') of
                  JNum price \<Rightarrow>
                    if isFinite price \<and> positive price then Inr (Math_floor price)
                    else Inr DEFAULT_MIN_AMOUNT
                | JStr price \<Rightarrow>
                    (case string_price price of
                       Some amount \<Rightarrow> Inr amount
                     | None \<Rightarrow> Inr DEFAULT_MIN_AMOUNT)
                | _ \<Rightarrow> Inr DEFAULT_MIN_AMOUNT))"

section \<open>buildPaymentRequirements\<close>

definition DEFAULT_ASSET :: jsstring where
  "DEFAULT_ASSET = js ''0x0000000000000000000000000000000000000001''"

text \<open>
  What the handler reads of an Express request: \<^verbatim>\<open>req.path\<close>, \<^verbatim>\<open>req.method\<close>,
  \<^verbatim>\<open>req.protocol\<close>, \<^verbatim>\<open>req.headers.host\<close> and \<^verbatim>\<open>req.header('X-PAYMENT')\<close>; the last two are
  undefined (\<open>None\<close>) when the request has no such header.
\<close>

record request =
  req_path :: jsstring
  req_method :: jsstring
  req_protocol :: jsstring
  req_host :: "jsstring option"
  req_x_payment :: "jsstring option"

text \<open>A string that may be undefined, inside a template literal.\<close>

fun template :: "jsstring option \<Rightarrow> jsstring" where
  "template None = js ''undefined''"
| "template (Some s) = s"

text \<open>A destructuring default \<^verbatim>\<open>{ k = d }\<close>: it stands in for undefined only.\<close>

definition with_default :: "jsval \<Rightarrow> jsstring \<Rightarrow> jsval \<Rightarrow> jsval" where
  "with_default obj k d = (case get_prop obj k of JUndefined \<Rightarrow> d | v \<Rightarrow> v)"

text \<open>
  The one requirement of a route: the object literal of the source, property by
  property. The function throws what \<open>resolveMinAmountRequired\<close> throws, and a TypeError
  when it reads \<^verbatim>\<open>network\<close> of an undefined route configuration.
\<close>

definition buildPaymentRequirements :: "jsval \<Rightarrow> jsval \<Rightarrow> request \<Rightarrow> exn + jsval list" where
  "buildPaymentRequirements payTo routeConfig req =
     (case resolveMinAmountRequired routeConfig of
        Inl e \<Rightarrow> Inl e
      | Inr minAmountRequired \<Rightarrow>
       (case read_prop routeConfig (js ''network'') of
          Inl e \<Rightarrow> Inl e
        | Inr configuredNetwork \<Rightarrow>
          (let network = js_or configuredNetwork (JStr DEFAULT_NETWORK);
               cfg = js_or (get_prop routeConfig (js ''config'')) (JObj []);
               description = with_default cfg (js ''description'') (JStr []);
               mimeType = with_default cfg (js ''mimeType'') (JStr []);
               maxTimeoutSeconds = with_default cfg (js ''maxTimeoutSeconds'') (JNum (Finite 60));
               discoverable = with_default cfg (js ''discoverable'') (JBool True);
               asset = with_default cfg (js ''asset'') (JStr DEFAULT_ASSET);
               extra = with_default cfg (js ''extra'') (JObj []);
               outputSchema = get_prop cfg (js ''outputSchema'');
               resource =
                 (case get_prop (get_prop routeConfig (js ''config'')) (js ''resource'') of
                    JStr s \<Rightarrow> s
                  | _ \<Rightarrow> req_protocol req @ js ''://'' @ template (req_host req) @ req_path req)
           in Inr
                [JObj
                   [(js ''scheme'', JStr (js ''utxo'')),
                    (js ''network'', network),
                    (js ''minAmountRequired'', JStr (numberToString minAmountRequired)),
                    (js ''resource'', JStr resource),
                    (js ''description'', description),
                    (js ''mimeType'', mimeType),
                    (js ''payTo'', payTo),
                    (js ''maxTimeoutSeconds'', maxTimeoutSeconds),
                    (js ''asset'', asset),
                    (js ''outputSchema'',
                       js_or outputSchema
                         (JObj [(js ''input'',
                            JObj [(js ''type'', JStr (js ''http'')),
                                  (js ''method'', JStr (toUpperCase (req_method req))),
                                  (js ''discoverable'', discoverable)])])),
                    (js ''extra'', extra)]])))"

section \<open>decodePaymentHeader\<close>

text \<open>
  \<^verbatim>\<open>v.k = x\<close> in a module (strict mode): a property write on an object; a TypeError on
  null, undefined and the other primitive values. (No array reaches the write in
  \<open>decodePaymentHeader\<close>: an array parsed from JSON has none of the required fields.)
\<close>

fun write_prop :: "jsval \<Rightarrow> jsstring \<Rightarrow> jsval \<Rightarrow> exn + jsval" where
  "write_prop (JObj kvs) k x = Inr (JObj (set_prop kvs k x))"
| "write_prop (JArr xs) k x = Inr (JArr xs)"
| "write_prop v k x = Inl (TypeError (js ''Cannot create property '' @ k))"

definition requiredFields :: "jsstring list" where
  "requiredFields = [js ''x402Version'', js ''scheme'', js ''network'', js ''payload'']"

definition missing_field :: "jsstring \<Rightarrow> exn" where
  "missing_field field = Error (js ''Missing required field in payment payload: '' @ field)"

text \<open>The \<^verbatim>\<open>for\<close> loop over the required fields: the first exception ends it.\<close>

fun check_fields :: "jsval \<Rightarrow> jsstring list \<Rightarrow> exn option" where
  "check_fields decodedPayment [] = None"
| "check_fields decodedPayment (field # rest) =
     (case read_prop decodedPayment field of
        Inl e \<Rightarrow> Some e
      | Inr v \<Rightarrow>
          if nullish v then Some (missing_field field)
          else check_fields decodedPayment rest)"

text \<open>
  \<open>JSON_parse\<close> stands for the built-in \<^verbatim>\<open>JSON.parse\<close>: it returns the value a text
  denotes or throws a SyntaxError.
\<close>

definition decodePaymentHeader ::
  "(jsstring \<Rightarrow> exn + jsval) \<Rightarrow> jsstring \<Rightarrow> jsval \<Rightarrow> exn + jsval" where
  "decodePaymentHeader JSON_parse headerValue x402Version =
     (case JSON_parse headerValue of
        Inl e \<Rightarrow> Inl e
      | Inr decodedPayment \<Rightarrow>
          (case check_fields decodedPayment requiredFields of
             Some e \<Rightarrow> Inl e
           | None \<Rightarrow> write_prop decodedPayment (js ''x402Version'') x402Version))"

section \<open>The facilitator\<close>

text \<open>
  What \<^verbatim>\<open>fetch\<close> resolves to, by what the handler reads of it: \<^verbatim>\<open>ok\<close>, \<^verbatim>\<open>status\<close>,
  \<^verbatim>\<open>statusText\<close>, and the outcome of awaiting \<^verbatim>\<open>json()\<close>.
\<close>

text \<open>
  What a function of the caller's may throw or reject with: any value. It is an error
  object, with its constructor and message, or another value: null, undefined, a string,
  a plain object.
\<close>

datatype thrown = ErrorObject exn | PlainValue jsval

text \<open>
  \<^verbatim>\<open>error.message\<close> in a \<^verbatim>\<open>catch\<close> clause: the message of an error object, the property
  of another value, and a TypeError of its own when the value is null or undefined.
\<close>

fun message_of :: "thrown \<Rightarrow> exn + jsval" where
  "message_of (ErrorObject e) = Inr (JStr (message e))"
| "message_of (PlainValue v) = read_prop v (js ''message'')"

record response =
  ok :: bool
  status :: nat
  statusText :: jsstring
  json :: "thrown + jsval"

text \<open>
  A property that may hold a function: the function, or the other value it holds
  (undefined when the property is absent).
\<close>

datatype 'f property = Function 'f | Other jsval

text \<open>\<^verbatim>\<open>a || b\<close> between such properties: a function is truthy.\<close>

fun property_or :: "'f property \<Rightarrow> 'f property \<Rightarrow> 'f property" where
  "property_or (Function f) b = Function f"
| "property_or (Other v) b = (if truthy v then Other v else b)"

text \<open>
  The facilitator object. The asynchronous functions are given by the outcome of
  awaiting a call: \<^verbatim>\<open>fetch(url, init)\<close> resolves to a response, or rejects or throws;
  \<^verbatim>\<open>createAuthHeaders()\<close> resolves to a value, or rejects or throws. For
  \<^verbatim>\<open>createAuthHeaders\<close>, of which the program only asks whether it is a function, a
  property that holds no function is \<open>None\<close>.
\<close>

record facilitator =
  url :: "jsstring option"
  fetch :: "(jsstring \<Rightarrow> jsval \<Rightarrow> thrown + response) property"
  verifyHeaders :: jsval
  createAuthHeaders :: "(thrown + jsval) option"

text \<open>The built-ins the program takes from its host.\<close>

record host =
  JSON_parse :: "jsstring \<Rightarrow> exn + jsval"
  globalThis_fetch :: "(jsstring \<Rightarrow> jsval \<Rightarrow> thrown + response) property"

definition resolveFetch ::
  "host \<Rightarrow> facilitator \<Rightarrow> exn + (jsstring \<Rightarrow> jsval \<Rightarrow> thrown + response)" where
  "resolveFetch h fac =
     (case property_or (fetch fac) (globalThis_fetch h) of
        Other v \<Rightarrow> Inl (Error (js ''fetch implementation is required for facilitator verification''))
      | Function fetchImpl \<Rightarrow> Inr fetchImpl)"

text \<open>
  \<^verbatim>\<open>generated?.verify\<close>: undefined when \<open>generated\<close> is null or undefined.
\<close>

definition resolveFacilitatorHeaders :: "facilitator \<Rightarrow> thrown + (jsstring \<times> jsval) list" where
  "resolveFacilitatorHeaders fac =
     (let headers = assign_entries [] (own_entries (js_or (verifyHeaders fac) (JObj [])))
      in case createAuthHeaders fac of
           None \<Rightarrow> Inr headers
         | Some (Inl e) \<Rightarrow> Inl e
         | Some (Inr generated) \<Rightarrow>
             if truthy (get_prop generated (js ''verify''))
             then Inr (assign_entries headers (own_entries (get_prop generated (js ''verify''))))
             else Inr headers)"

section \<open>paymentMiddleware\<close>

text \<open>
  What a call of the handler does to the response and to \<^verbatim>\<open>next\<close>: the arguments of the
  calls of \<^verbatim>\<open>res.status\<close> and of \<^verbatim>\<open>res.json\<close>, in order, and the number of calls of
  \<^verbatim>\<open>next\<close>.
\<close>

record effects =
  status_calls :: "nat list"
  json_calls :: "jsval list"
  next_calls :: nat

definition no_effects :: effects where
  "no_effects = \<lparr> status_calls = [], json_calls = [], next_calls = 0 \<rparr>"

definition call_next :: "effects \<Rightarrow> effects" where
  "call_next fx = fx \<lparr> next_calls := Suc (next_calls fx) \<rparr>"

text \<open>\<^verbatim>\<open>res.status(code)\<close> and \<^verbatim>\<open>.json(body)\<close>\<close>

definition res_status :: "nat \<Rightarrow> effects \<Rightarrow> effects" where
  "res_status code fx = fx \<lparr> status_calls := status_calls fx @ [code] \<rparr>"

definition res_json :: "jsval \<Rightarrow> effects \<Rightarrow> effects" where
  "res_json body fx = fx \<lparr> json_calls := json_calls fx @ [body] \<rparr>"

text \<open>
  \<^verbatim>\<open>res.status(code).json(body)\<close> with a body whose evaluation does not throw: the call of
  \<^verbatim>\<open>res.status\<close>, then the call of \<^verbatim>\<open>json\<close>.
\<close>

definition respond :: "nat \<Rightarrow> jsval \<Rightarrow> effects \<Rightarrow> effects" where
  "respond code body fx = res_json body (res_status code fx)"

definition x402Version :: jsval where
  "x402Version = JNum (Finite 1)"

text \<open>The body of a 402 response without and with a payer.\<close>

definition challenge :: "jsval \<Rightarrow> jsval list \<Rightarrow> jsval" where
  "challenge err paymentRequirements =
     JObj [(js ''x402Version'', x402Version),
           (js ''error'', err),
           (js ''accepts'', JArr paymentRequirements)]"

definition rejection :: "jsval \<Rightarrow> jsval list \<Rightarrow> jsval \<Rightarrow> jsval" where
  "rejection err paymentRequirements payer =
     JObj [(js ''x402Version'', x402Version),
           (js ''error'', err),
           (js ''accepts'', JArr paymentRequirements),
           (js ''payer'', payer)]"

text \<open>\<^verbatim>\<open>error.message || fallback\<close>\<close>

definition message_or :: "exn \<Rightarrow> jsstring \<Rightarrow> jsval" where
  "message_or e fallback = js_or (JStr (message e)) (JStr fallback)"

text \<open>
  \<^verbatim>\<open>a === b\<close> between a property of a requirement and a property of the decoded payment:
  equal primitive values of the same type; NaN equals nothing; two objects are never the
  same object, since the one was built from the routes and the other by \<^verbatim>\<open>JSON.parse\<close>.
\<close>

fun strict_equals :: "jsval \<Rightarrow> jsval \<Rightarrow> bool" where
  "strict_equals JUndefined JUndefined = True"
| "strict_equals JNull JNull = True"
| "strict_equals (JBool a) (JBool b) = (a = b)"
| "strict_equals (JNum (Finite a)) (JNum (Finite b)) = (a = b)"
| "strict_equals (JNum PosInfinity) (JNum PosInfinity) = True"
| "strict_equals (JNum NegInfinity) (JNum NegInfinity) = True"
| "strict_equals (JStr a) (JStr b) = (a = b)"
| "strict_equals _ _ = False"

definition selectPaymentRequirements :: "jsval list \<Rightarrow> jsval \<Rightarrow> jsval option" where
  "selectPaymentRequirements paymentRequirements decodedPayment =
     List.find (\<lambda>requirement.
         strict_equals (get_prop requirement (js ''scheme'')) (get_prop decodedPayment (js ''scheme''))
         \<and> strict_equals (get_prop requirement (js ''network'')) (get_prop decodedPayment (js ''network'')))
       paymentRequirements"

text \<open>
  The second argument of the call of \<^verbatim>\<open>fetch\<close>. The body is kept as the value that
  \<^verbatim>\<open>JSON.stringify\<close> is applied to.
\<close>

definition verifyInit :: "(jsstring \<times> jsval) list \<Rightarrow> jsval \<Rightarrow> jsval \<Rightarrow> jsval" where
  "verifyInit headers decodedPayment selectedPaymentRequirements =
     JObj [(js ''method'', JStr (js ''POST'')),
           (js ''headers'',
              JObj (assign_entries [(js ''Content-Type'', JStr (js ''application/json''))] headers)),
           (js ''body'',
              JObj [(js ''x402Version'', x402Version),
                    (js ''paymentPayload'', decodedPayment),
                    (js ''paymentRequirements'', selectedPaymentRequirements)])]"

text \<open>
  The statements of the last \<^verbatim>\<open>try\<close> block up to \<^verbatim>\<open>response.json()\<close>: the value is the
  verification result, and an exception is what the \<^verbatim>\<open>catch\<close> clause receives.
\<close>

definition verifyPayment :: "host \<Rightarrow> facilitator \<Rightarrow> jsval \<Rightarrow> jsval \<Rightarrow> thrown + jsval" where
  "verifyPayment h fac decodedPayment selectedPaymentRequirements =
     (case resolveFetch h fac of
        Inl e \<Rightarrow> Inl (ErrorObject e)
      | Inr fetchImpl \<Rightarrow>
          (case resolveFacilitatorHeaders fac of
             Inl error \<Rightarrow> Inl error
           | Inr headers \<Rightarrow>
               (case fetchImpl (template (url fac) @ js ''/verify'')
                       (verifyInit headers decodedPayment selectedPaymentRequirements)
                of
                  Inl error \<Rightarrow> Inl error
                | Inr resp \<Rightarrow>
                    if \<not> ok resp then
                      Inl (ErrorObject
                             (Error (js ''Facilitator verification failed: '' @ decimal (status resp)
                                     @ js '' '' @ statusText resp)))
                    else json resp)))"

text \<open>
  The last \<^verbatim>\<open>catch\<close> clause, \<^verbatim>\<open>res.status(402).json({ ..., error: error.message || ... })\<close>:
  \<^verbatim>\<open>res.status(402)\<close> is called before the argument of \<^verbatim>\<open>json\<close> is evaluated. When
  \<^verbatim>\<open>error\<close> is null or undefined, reading its message throws inside the clause: \<^verbatim>\<open>json\<close> is
  not called and the promise of the handler is rejected with that TypeError.
\<close>

definition catch_verification :: "thrown \<Rightarrow> jsval list \<Rightarrow> effects \<Rightarrow> exn option \<times> effects" where
  "catch_verification error paymentRequirements fx =
     (case message_of error of
        Inl e \<Rightarrow> (Some e, res_status 402 fx)
      | Inr m \<Rightarrow>
          (None, res_json
             (challenge (js_or m (JStr (js ''Payment verification failed''))) paymentRequirements)
             (res_status 402 fx)))"

text \<open>
  The handler. A call returns the effects and, when the promise of the handler is
  rejected, the exception it is rejected with.
\<close>

definition paymentMiddlewareHandler ::
  "host \<Rightarrow> jsval \<Rightarrow> route_pattern list \<Rightarrow> facilitator \<Rightarrow> request \<Rightarrow> effects
     \<Rightarrow> exn option \<times> effects" where
  "paymentMiddlewareHandler h payTo routePatterns fac req fx =
     (case findMatchingRoute routePatterns (req_path req) (req_method req) of
        Inl e \<Rightarrow> (Some e, fx)
      | Inr None \<Rightarrow> (None, call_next fx)
      | Inr (Some matchingRoute) \<Rightarrow>
          (case buildPaymentRequirements payTo (config matchingRoute) req of
             Inl e \<Rightarrow> (Some e, fx)
           | Inr paymentRequirements \<Rightarrow>
               (case string_or (req_x_payment req) None of
                  None \<Rightarrow>
                    (None, respond 402
                       (challenge (JStr (js ''X-PAYMENT header is required'')) paymentRequirements) fx)
                | Some paymentHeader \<Rightarrow>
                    (case decodePaymentHeader (JSON_parse h) paymentHeader x402Version of
                       Inl e \<Rightarrow>
                         (None, respond 402
                            (challenge (message_or e (js ''Invalid or malformed payment header''))
                               paymentRequirements) fx)
                     | Inr decodedPayment \<Rightarrow>
                         (case selectPaymentRequirements paymentRequirements decodedPayment of
                            None \<Rightarrow>
                              (None, respond 402
                                 (challenge (JStr (js ''Unable to find matching payment requirements''))
                                    paymentRequirements) fx)
                          | Some selectedPaymentRequirements \<Rightarrow>
                              (case verifyPayment h fac decodedPayment selectedPaymentRequirements of
                                 Inl error \<Rightarrow> catch_verification error paymentRequirements fx
                               | Inr verificationResult \<Rightarrow>
                                   (case read_prop verificationResult (js ''isValid'') of
                                      Inl e \<Rightarrow>
                                        catch_verification (ErrorObject e) paymentRequirements fx
                                    | Inr isValid \<Rightarrow>
                                        if \<not> truthy isValid then
                                          (None, respond 402
                                             (rejection
                                                (js_or (get_prop verificationResult (js ''invalidReason''))
                                                   (JStr (js ''Payment verification failed'')))
                                                paymentRequirements
                                                (js_or (get_prop verificationResult (js ''payer''))
                                                   (JStr [])))
                                             fx)
                                        else (None, call_next fx))))))))"

text \<open>
  The factory: it throws without a payee and when a route does not compile, and
  otherwise returns the handler.
\<close>

definition paymentMiddleware ::
  "(jsstring \<Rightarrow> exn + regexp) \<Rightarrow> host \<Rightarrow> jsval \<Rightarrow> (jsstring \<times> jsval) list \<Rightarrow> facilitator
     \<Rightarrow> exn + (request \<Rightarrow> effects \<Rightarrow> exn option \<times> effects)" where
  "paymentMiddleware RegExp_i h payTo routes fac =
     (if \<not> truthy payTo then Inl (Error (js ''payTo is required''))
      else
        (case computeRoutePatterns RegExp_i routes of
           Inl e \<Rightarrow> Inl e
         | Inr routePatterns \<Rightarrow> Inr (paymentMiddlewareHandler h payTo routePatterns fac)))"


section \<open>A JSON.parse\<close>

text \<open>
  An implementation of \<^verbatim>\<open>JSON.parse\<close> after the JSON grammar of ECMA-404, to run the
  handler on header texts. The theorems about \<open>decodePaymentHeader\<close> and the handler hold
  for every function in its place. A lexer reads the text into tokens, a stack machine
  reads the tokens into a value. Every failure is a SyntaxError; the text of its message
  differs between engines and is fixed here.
\<close>

datatype jtoken =
    TLBrace
  | TRBrace
  | TLBracket
  | TRBracket
  | TColon
  | TComma
  | TValue jsval

text \<open>
  The states of the lexer: between tokens; inside a string (with the characters read so
  far, reversed); after a backslash; inside \<^verbatim>\<open>\uXXXX\<close> (with the digits read so far);
  inside a number or a word.
\<close>

datatype lex_state =
    LStart
  | LString jsstring
  | LEscape jsstring
  | LUnicode jsstring "nat list"
  | LAtom jsstring

definition json_space :: "nat \<Rightarrow> bool" where
  "json_space c \<longleftrightarrow> c = 9 \<or> c = 10 \<or> c = 13 \<or> c = 32"

definition atom_char :: "nat \<Rightarrow> bool" where
  "atom_char c \<longleftrightarrow>
     is_digit c \<or> (ch CHR ''a'' \<le> c \<and> c \<le> ch CHR ''z'') \<or> (ch CHR ''A'' \<le> c \<and> c \<le> ch CHR ''Z'')
     \<or> c = ch CHR ''+'' \<or> c = ch CHR ''-'' \<or> c = ch CHR ''.''"

text \<open>
  A JSON number: an optional minus, an integer part without a leading zero (or 0 alone),
  an optional fraction with at least one digit, an optional exponent.
\<close>

definition json_number :: "jsstring \<Rightarrow> jsnum option" where
  "json_number s =
     (let negative = (take 1 s = js ''-'');
          u = (if negative then drop 1 s else s);
          ip = takeWhile is_digit u;
          r1 = dropWhile is_digit u;
          dot = (take 1 r1 = js ''.'');
          fp = (if dot then takeWhile is_digit (drop 1 r1) else []);
          r2 = (if dot then dropWhile is_digit (drop 1 r1) else r1)
      in if ip = [] \<or> (1 < length ip \<and> take 1 ip = js ''0'') \<or> (dot \<and> fp = []) then None
         else
           (case exponent_part r2 of
              None \<Rightarrow> None
            | Some e \<Rightarrow>
                (let m = of_nat (digits_value 10 ip) + of_nat (digits_value 10 fp) / 10 ^ length fp;
                     r = (if 0 \<le> e then m * 10 ^ nat e else m / 10 ^ nat (- e))
                 in Some (round_double (if negative then - r else r)))))"

definition atom_token :: "jsstring \<Rightarrow> jtoken option" where
  "atom_token s =
     (if s = js ''true'' then Some (TValue (JBool True))
      else if s = js ''false'' then Some (TValue (JBool False))
      else if s = js ''null'' then Some (TValue JNull)
      else map_option (\<lambda>n. TValue (JNum n)) (json_number s))"

text \<open>The character after a backslash in a string, and the character it stands for.\<close>

definition simple_escape :: "nat \<Rightarrow> nat option" where
  "simple_escape c =
     (if c = 34 \<or> c = 92 \<or> c = ch CHR ''/'' then Some c
      else if c = ch CHR ''b'' then Some 8
      else if c = ch CHR ''f'' then Some 12
      else if c = ch CHR ''n'' then Some 10
      else if c = ch CHR ''r'' then Some 13
      else if c = ch CHR ''t'' then Some 9
      else None)"

text \<open>What a character does between tokens: the next state and the tokens it completes.\<close>

definition start_char :: "nat \<Rightarrow> (lex_state \<times> jtoken list) option" where
  "start_char c =
     (if json_space c then Some (LStart, [])
      else if c = ch CHR ''{'' then Some (LStart, [TLBrace])
      else if c = ch CHR ''}'' then Some (LStart, [TRBrace])
      else if c = ch CHR ''['' then Some (LStart, [TLBracket])
      else if c = ch CHR '']'' then Some (LStart, [TRBracket])
      else if c = ch CHR '':'' then Some (LStart, [TColon])
      else if c = ch CHR '','' then Some (LStart, [TComma])
      else if c = 34 then Some (LString [], [])
      else if atom_char c then Some (LAtom [c], [])
      else None)"

fun lex :: "lex_state \<Rightarrow> jsstring \<Rightarrow> jtoken list option" where
  "lex LStart [] = Some []"
| "lex (LAtom a) [] = map_option (\<lambda>t. [t]) (atom_token (rev a))"
| "lex st [] = None"
| "lex LStart (c # cs) =
     (case start_char c of
        None \<Rightarrow> None
      | Some (st, toks) \<Rightarrow> map_option (append toks) (lex st cs))"
| "lex (LAtom a) (c # cs) =
     (if atom_char c then lex (LAtom (c # a)) cs
      else
        (case atom_token (rev a) of
           None \<Rightarrow> None
         | Some t \<Rightarrow>
             (case start_char c of
                None \<Rightarrow> None
              | Some (st, toks) \<Rightarrow> map_option (append (t # toks)) (lex st cs))))"
| "lex (LString acc) (c # cs) =
     (if c = 34 then map_option (Cons (TValue (JStr (rev acc)))) (lex LStart cs)
      else if c = 92 then lex (LEscape acc) cs
      else if c < 32 then None
      else lex (LString (c # acc)) cs)"
| "lex (LEscape acc) (c # cs) =
     (if c = ch CHR ''u'' then lex (LUnicode acc []) cs
      else
        (case simple_escape c of
           None \<Rightarrow> None
         | Some x \<Rightarrow> lex (LString (x # acc)) cs))"
| "lex (LUnicode acc hs) (c # cs) =
     (case hex_value c of
        None \<Rightarrow> None
      | Some d \<Rightarrow>
          if length hs = 3 then lex (LString (foldl (\<lambda>a x. 16 * a + x) 0 (hs @ [d]) # acc)) cs
          else lex (LUnicode acc (hs @ [d])) cs)"

text \<open>
  The stack of the parser: an array with its elements so far (reversed), an object with
  its properties so far, an object that waits for the value of a key.
\<close>

datatype frame =
    FArr "jsval list"
  | FObj "(jsstring \<times> jsval) list"
  | FKey "(jsstring \<times> jsval) list" jsstring

datatype expect =
    Value_expected
  | Array_start
  | Object_start
  | Key_expected
  | Colon_expected
  | Separator_expected
  | Done jsval

text \<open>
  A value is complete: it is the result, or an element of the array, or the value of the
  pending key (a repeated key keeps its place and takes the last value).
\<close>

fun complete :: "jsval \<Rightarrow> frame list \<Rightarrow> (expect \<times> frame list) option" where
  "complete v [] = Some (Done v, [])"
| "complete v (FArr xs # stack) = Some (Separator_expected, FArr (v # xs) # stack)"
| "complete v (FKey kvs k # stack) = Some (Separator_expected, FObj (set_prop kvs k v) # stack)"
| "complete v (FObj kvs # stack) = None"

fun open_value :: "jtoken \<Rightarrow> frame list \<Rightarrow> (expect \<times> frame list) option" where
  "open_value (TValue v) stack = complete v stack"
| "open_value TLBracket stack = Some (Array_start, FArr [] # stack)"
| "open_value TLBrace stack = Some (Object_start, FObj [] # stack)"
| "open_value t stack = None"

fun parse_step :: "expect \<Rightarrow> frame list \<Rightarrow> jtoken \<Rightarrow> (expect \<times> frame list) option" where
  "parse_step Value_expected stack t = open_value t stack"
| "parse_step Array_start (FArr xs # stack) TRBracket = complete (JArr (rev xs)) stack"
| "parse_step Array_start stack t = open_value t stack"
| "parse_step Object_start (FObj kvs # stack) TRBrace = complete (JObj kvs) stack"
| "parse_step Object_start (FObj kvs # stack) (TValue (JStr k)) =
     Some (Colon_expected, FKey kvs k # stack)"
| "parse_step Key_expected (FObj kvs # stack) (TValue (JStr k)) =
     Some (Colon_expected, FKey kvs k # stack)"
| "parse_step Colon_expected stack TColon = Some (Value_expected, stack)"
| "parse_step Separator_expected (FArr xs # stack) TComma = Some (Value_expected, FArr xs # stack)"
| "parse_step Separator_expected (FArr xs # stack) TRBracket = complete (JArr (rev xs)) stack"
| "parse_step Separator_expected (FObj kvs # stack) TComma = Some (Key_expected, FObj kvs # stack)"
| "parse_step Separator_expected (FObj kvs # stack) TRBrace = complete (JObj kvs) stack"
| "parse_step e stack t = None"

fun parse_tokens :: "expect \<Rightarrow> frame list \<Rightarrow> jtoken list \<Rightarrow> jsval option" where
  "parse_tokens (Done v) stack [] = Some v"
| "parse_tokens e stack [] = None"
| "parse_tokens e stack (t # ts) =
     (case parse_step e stack t of
        None \<Rightarrow> None
      | Some (e', stack') \<Rightarrow> parse_tokens e' stack' ts)"

definition json_syntax_error :: exn where
  "json_syntax_error = SyntaxError (js ''Unexpected token in JSON'')"

definition parseJSON :: "jsstring \<Rightarrow> exn + jsval" where
  "parseJSON text =
     (case lex LStart text of
        None \<Rightarrow> Inl json_syntax_error
      | Some tokens \<Rightarrow>
          (case parse_tokens Value_expected [] tokens of
             None \<Rightarrow> Inl json_syntax_error
           | Some v \<Rightarrow> Inr v))"


section \<open>Auxiliary definitions for the statements\<close>

text \<open>
  The route that \<open>findMatchingRoute\<close> keeps for a normalised path: the fold of \<^verbatim>\<open>reduce\<close>
  over the candidates, and nothing when there is no candidate.
\<close>

definition pick :: "jsstring \<Rightarrow> jsstring \<Rightarrow> route_pattern list \<Rightarrow> route_pattern option" where
  "pick np m ps =
     (case route_candidates ps np m of [] \<Rightarrow> None | x # xs \<Rightarrow> Some (foldl more_specific x xs))"

text \<open>The overlapping routes of the repository's test of the most specific route.\<close>

definition specificRoutes :: "(jsstring \<times> jsval) list" where
  "specificRoutes =
     [(js ''network'', JStr (js ''bch'')),
      (js ''GET /a/*'', JObj [(js ''price'', JNum (Finite 900))]),
      (js ''GET /a/reports'', JObj [(js ''price'', JNum (Finite 1400))])]"

definition specificPatterns :: "route_pattern list" where
  "specificPatterns =
     [\<lparr> verb = js ''GET'',
        pattern = \<lparr> source = regexPattern (js ''/a/*''),
                    test = rx_match [Lit (ch CHR ''/''), Lit (ch CHR ''a''), Lit (ch CHR ''/''), AnyLazy] \<rparr>,
        config = JObj [(js ''network'', JStr (js ''bch'')), (js ''price'', JNum (Finite 900))] \<rparr>,
      \<lparr> verb = js ''GET'',
        pattern = \<lparr> source = regexPattern (js ''/a/reports''),
                    test = rx_match (map Lit (js ''/a/reports'')) \<rparr>,
        config = JObj [(js ''network'', JStr (js ''bch'')), (js ''price'', JNum (Finite 1400))] \<rparr>]"

text \<open>Two routes whose sources have the same length, and both match \<^verbatim>\<open>/a/b\<close>.\<close>

definition tieRoutes :: "(jsstring \<times> jsval) list" where
  "tieRoutes =
     [(js ''GET /a/*'', JNum (Finite 900)),
      (js ''GET /*/b'', JNum (Finite 1400))]"

definition tiePatterns :: "route_pattern list" where
  "tiePatterns =
     [\<lparr> verb = js ''GET'',
        pattern = \<lparr> source = regexPattern (js ''/a/*''),
                    test = rx_match [Lit (ch CHR ''/''), Lit (ch CHR ''a''), Lit (ch CHR ''/''), AnyLazy] \<rparr>,
        config = JObj [(js ''price'', JNum (Finite 900)), (js ''network'', JStr (js ''bch''))] \<rparr>,
      \<lparr> verb = js ''GET'',
        pattern = \<lparr> source = regexPattern (js ''/*/b''),
                    test = rx_match [Lit (ch CHR ''/''), AnyLazy, Lit (ch CHR ''/''), Lit (ch CHR ''b'')] \<rparr>,
        config = JObj [(js ''price'', JNum (Finite 1400)), (js ''network'', JStr (js ''bch''))] \<rparr>]"

text \<open>
  The keys \<open>compileRoute\<close> refuses: they hold a space and nothing but white space.
\<close>

definition blank_key :: "jsstring \<Rightarrow> bool" where
  "blank_key key \<longleftrightarrow> ch CHR '' '' \<in> set key \<and> (\<forall>c \<in> set key. is_space c)"

definition invalid_route_pattern :: "jsstring \<Rightarrow> exn" where
  "invalid_route_pattern key = Error (js ''Invalid route pattern: '' @ key)"

text \<open>The entries of the routes object that stand for routes: all but \<^verbatim>\<open>network\<close>.\<close>

definition route_entries :: "(jsstring \<times> jsval) list \<Rightarrow> (jsstring \<times> jsval) list" where
  "route_entries routes = filter (\<lambda>(key, value). key \<noteq> js ''network'') routes"

text \<open>A routes object with a key that names a verb and no path.\<close>

definition verbOnlyRoutes :: "(jsstring \<times> jsval) list" where
  "verbOnlyRoutes =
     [(js ''network'', JStr (js ''bch'')),
      (js ''GET '', JNum (Finite 1000)),
      (js ''/open'', JNum (Finite 1200))]"

text \<open>A string between double quotes, to write JSON texts.\<close>

definition dq :: "string \<Rightarrow> jsstring" where
  "dq s = [34] @ js s @ [34]"

text \<open>The routes, the payee and the request of the repository's tests of the handler.\<close>

definition baseRoutes :: "(jsstring \<times> jsval) list" where
  "baseRoutes =
     [(js ''network'', JStr (js ''bch'')),
      (js ''GET /protected'', JObj [(js ''price'', JNum (Finite 1500))]),
      (js ''/open'', JNum (Finite 1200))]"

definition basePatterns :: "route_pattern list" where
  "basePatterns =
     [\<lparr> verb = js ''GET'',
        pattern = \<lparr> source = regexPattern (js ''/protected''),
                    test = rx_match (map Lit (js ''/protected'')) \<rparr>,
        config = JObj [(js ''network'', JStr (js ''bch'')), (js ''price'', JNum (Finite 1500))] \<rparr>,
      \<lparr> verb = js ''*'',
        pattern = \<lparr> source = regexPattern (js ''/open''),
                    test = rx_match (map Lit (js ''/open'')) \<rparr>,
        config = JObj [(js ''price'', JNum (Finite 1200)), (js ''network'', JStr (js ''bch''))] \<rparr>]"

definition payToAddress :: jsval where
  "payToAddress = JStr (js ''bitcoincash:qq123exampleaddress0000000000000000'')"

definition validPaymentPayload :: jsstring where
  "validPaymentPayload =
     js ''{'' @ dq ''x402Version'' @ js '':1,'' @ dq ''scheme'' @ js '':'' @ dq ''utxo'' @ js '',''
       @ dq ''network'' @ js '':'' @ dq ''bch'' @ js '','' @ dq ''payload'' @ js '':{''
       @ dq ''some'' @ js '':'' @ dq ''data'' @ js ''}}''"

definition decodedValidPayment :: jsval where
  "decodedValidPayment =
     JObj [(js ''x402Version'', JNum (Finite 1)),
           (js ''scheme'', JStr (js ''utxo'')),
           (js ''network'', JStr (js ''bch'')),
           (js ''payload'', JObj [(js ''some'', JStr (js ''data''))])]"

definition protectedRequest :: request where
  "protectedRequest =
     \<lparr> req_path = js ''/protected'', req_method = js ''GET'', req_protocol = js ''http'',
       req_host = Some (js ''example.com''), req_x_payment = Some validPaymentPayload \<rparr>"

text \<open>The requirement of \<^verbatim>\<open>GET /protected\<close> for that request.\<close>

definition protectedRequirement :: jsval where
  "protectedRequirement =
     JObj [(js ''scheme'', JStr (js ''utxo'')),
           (js ''network'', JStr (js ''bch'')),
           (js ''minAmountRequired'', JStr (js ''1500'')),
           (js ''resource'', JStr (js ''http://example.com/protected'')),
           (js ''description'', JStr []),
           (js ''mimeType'', JStr []),
           (js ''payTo'', payToAddress),
           (js ''maxTimeoutSeconds'', JNum (Finite 60)),
           (js ''asset'', JStr DEFAULT_ASSET),
           (js ''outputSchema'',
              JObj [(js ''input'',
                 JObj [(js ''type'', JStr (js ''http'')),
                       (js ''method'', JStr (js ''GET'')),
                       (js ''discoverable'', JBool True)])]),
           (js ''extra'', JObj [])]"

text \<open>A host without a default \<^verbatim>\<open>fetch\<close>, and a facilitator that brings none.\<close>

definition bareHost :: host where
  "bareHost = \<lparr> JSON_parse = parseJSON, globalThis_fetch = Other JUndefined \<rparr>"

definition bareFacilitator :: facilitator where
  "bareFacilitator =
     \<lparr> url = Some (js ''http://facilitator.test''), fetch = Other JUndefined,
       verifyHeaders = JUndefined, createAuthHeaders = None \<rparr>"

text \<open>A facilitator whose transport resolves to a given response.\<close>

definition respondingFacilitator :: "response \<Rightarrow> facilitator" where
  "respondingFacilitator resp =
     \<lparr> url = Some (js ''http://facilitator.test''), fetch = Function (\<lambda>u init. Inr resp),
       verifyHeaders = JUndefined, createAuthHeaders = None \<rparr>"

definition okResponse :: "jsval \<Rightarrow> response" where
  "okResponse body = \<lparr> ok = True, status = 200, statusText = js ''OK'', json = Inr body \<rparr>"

text \<open>A facilitator whose transport rejects with a given value.\<close>

definition rejectingFacilitator :: "thrown \<Rightarrow> facilitator" where
  "rejectingFacilitator error =
     \<lparr> url = Some (js ''http://facilitator.test''), fetch = Function (\<lambda>u init. Inl error),
       verifyHeaders = JUndefined, createAuthHeaders = None \<rparr>"





definition transport_unavailable :: exn where
  "transport_unavailable =
     Error (js ''fetch implementation is required for facilitator verification'')"


definition halfAmountRoutes :: "(jsstring \<times> jsval) list" where
  "halfAmountRoutes =
     [(js ''GET /protected'', JObj [(js ''minAmountRequired'', JNum (Finite (1 / 2)))])]"

definition halfAmountConfig :: jsval where
  "halfAmountConfig =
     JObj [(js ''network'', JStr (js ''bch'')), (js ''minAmountRequired'', JNum (Finite (1 / 2)))]"


text \<open>
  A payment header whose \<^verbatim>\<open>scheme\<close> is null, and one that has nothing but a null
  \<^verbatim>\<open>scheme\<close>.
\<close>

definition schemeOnlyPayload :: jsstring where
  "schemeOnlyPayload = js ''{'' @ dq ''scheme'' @ js '':null}''"

definition nullSchemePayload :: jsstring where
  "nullSchemePayload =
     js ''{'' @ dq ''x402Version'' @ js '':1,'' @ dq ''scheme'' @ js '':null,''
       @ dq ''network'' @ js '':'' @ dq ''bch'' @ js '','' @ dq ''payload'' @ js '':{}}''"




definition insufficientResult :: jsval where
  "insufficientResult =
     JObj [(js ''isValid'', JBool False),
           (js ''invalidReason'', JStr (js ''insufficient amount'')),
           (js ''payer'', JStr (js ''payer-id''))]"

definition bareInvalidResult :: jsval where
  "bareInvalidResult = JObj [(js ''isValid'', JBool False)]"


section \<open>Evaluation\<close>

lemmas string_eval = js_def toUpperCase_def upper_unit_def is_space_def is_line_terminator_def

lemmas path_eval =
  normalizePath_def pathWithoutQuery_def backslashes_to_slashes_def strip_trailing_slashes_def
  hex_value_def leading_ones_def utf8_code_point_def utf16_encode_def uri_malformed_def

lemmas compile_eval =
  computeRoutePatterns_def normalizedRoutes_def normalizedValue_def Object_fromEntries_def
  assign_entries_def compileRoute_def key_path_def key_verb_def key_parts_def split_spaces_def
  element_def regexPattern_def escape_metacharacters_def replace_stars_def escape_slashes_def
  RegExp_fragment_def DEFAULT_NETWORK_def js_or_def

lemmas match_eval =
  findMatchingRoute_def route_candidates_def matchesRoute_def more_specific_def source_length_def

lemma decimal_digit: "n < 10 \<Longrightarrow> decimal n = [ch CHR ''0'' + n]"
  by (simp add: decimal.simps)

lemma decimal_more: "10 \<le> n \<Longrightarrow> decimal n = decimal (n div 10) @ [ch CHR ''0'' + n mod 10]"
  by (subst decimal.simps) simp

lemmas number_eval =
  StringToNumber_def unsigned_decimal_def exponent_part_def digits_in_def digits_value_def
  is_digit_def trim_def round_double_def hex_value_def numberToString_def exponential_def
  decimal_digit decimal_more

lemmas amount_eval =
  resolveMinAmountRequired_def string_price_def satoshi_suffix_def ends_with_def all_digits_def
  DEFAULT_MIN_AMOUNT_def

lemmas json_eval =
  parseJSON_def start_char_def json_space_def atom_char_def atom_token_def json_number_def
  simple_escape_def json_syntax_error_def dq_def

lemmas decode_eval =
  decodePaymentHeader_def requiredFields_def missing_field_def cannot_read_def x402Version_def

lemmas requirements_eval =
  buildPaymentRequirements_def with_default_def DEFAULT_ASSET_def DEFAULT_NETWORK_def js_or_def

section \<open>findMatchingRoute: the most specific candidate\<close>

lemma pick_snoc:
  "pick np m (ps @ [p]) =
     (if matchesRoute np m p
      then (case pick np m ps of None \<Rightarrow> Some p | Some r \<Rightarrow> Some (more_specific r p))
      else pick np m ps)"
  by (simp add: pick_def route_candidates_def split: list.splits)

lemma pick_None: "pick np m ps = None \<longleftrightarrow> (\<forall>p \<in> set ps. \<not> matchesRoute np m p)"
proof -
  have "pick np m ps = None \<longleftrightarrow> filter (matchesRoute np m) ps = []"
    by (simp add: pick_def route_candidates_def split: list.splits)
  then show ?thesis
    by (simp add: filter_empty_conv)
qed

text \<open>
  The kept route sits at some index of the pattern list; it is a candidate, no candidate
  has a longer source, and every candidate before it has a strictly shorter one.
\<close>

lemma pick_earliest_longest:
  "pick np m ps = Some r \<Longrightarrow>
     \<exists>i<length ps. ps ! i = r \<and> matchesRoute np m r
       \<and> (\<forall>j<length ps. matchesRoute np m (ps ! j) \<longrightarrow> source_length (ps ! j) \<le> source_length r)
       \<and> (\<forall>j<i. matchesRoute np m (ps ! j) \<longrightarrow> source_length (ps ! j) < source_length r)"
proof (induction ps arbitrary: r rule: rev_induct)
  case Nil
  then show ?case by (simp add: pick_def route_candidates_def)
next
  case (snoc p ps)
  show ?case
  proof (cases "matchesRoute np m p")
    case False
    with snoc.prems have "pick np m ps = Some r" by (simp add: pick_snoc)
    from snoc.IH [OF this] obtain i where i: "i < length ps" "ps ! i = r" "matchesRoute np m r"
      "\<forall>j<length ps. matchesRoute np m (ps ! j) \<longrightarrow> source_length (ps ! j) \<le> source_length r"
      "\<forall>j<i. matchesRoute np m (ps ! j) \<longrightarrow> source_length (ps ! j) < source_length r"
      by blast
    have "\<forall>j<length (ps @ [p]). matchesRoute np m ((ps @ [p]) ! j) \<longrightarrow>
            source_length ((ps @ [p]) ! j) \<le> source_length r"
      using i(4) False by (auto simp: nth_append less_Suc_eq)
    moreover have "\<forall>j<i. matchesRoute np m ((ps @ [p]) ! j) \<longrightarrow>
            source_length ((ps @ [p]) ! j) < source_length r"
      using i(1,5) by (auto simp: nth_append)
    ultimately show ?thesis
      using i(1,2,3) by (intro exI [of _ i]) (auto simp: nth_append)
  next
    case True
    show ?thesis
    proof (cases "pick np m ps")
      case None
      with True snoc.prems have r: "r = p" by (simp add: pick_snoc)
      from None have no: "\<forall>q \<in> set ps. \<not> matchesRoute np m q" by (simp add: pick_None)
      have "\<forall>j<length (ps @ [p]). matchesRoute np m ((ps @ [p]) ! j) \<longrightarrow>
            source_length ((ps @ [p]) ! j) \<le> source_length r"
        using no r by (auto simp: nth_append less_Suc_eq)
      moreover have "\<forall>j<length ps. matchesRoute np m ((ps @ [p]) ! j) \<longrightarrow>
            source_length ((ps @ [p]) ! j) < source_length r"
        using no by (auto simp: nth_append)
      ultimately show ?thesis
        using True r by (intro exI [of _ "length ps"]) auto
    next
      case (Some r0)
      from snoc.IH [OF this] obtain i where i: "i < length ps" "ps ! i = r0" "matchesRoute np m r0"
        "\<forall>j<length ps. matchesRoute np m (ps ! j) \<longrightarrow> source_length (ps ! j) \<le> source_length r0"
        "\<forall>j<i. matchesRoute np m (ps ! j) \<longrightarrow> source_length (ps ! j) < source_length r0"
        by blast
      from True Some snoc.prems have r: "r = more_specific r0 p" by (simp add: pick_snoc)
      show ?thesis
      proof (cases "source_length p > source_length r0")
        case longer: True
        then have rp: "r = p" using r by (simp add: more_specific_def)
        have "\<forall>j<length (ps @ [p]). matchesRoute np m ((ps @ [p]) ! j) \<longrightarrow>
              source_length ((ps @ [p]) ! j) \<le> source_length r"
          using i(4) longer rp by (fastforce simp: nth_append less_Suc_eq)
        moreover have "\<forall>j<length ps. matchesRoute np m ((ps @ [p]) ! j) \<longrightarrow>
              source_length ((ps @ [p]) ! j) < source_length r"
          using i(4) longer rp by (fastforce simp: nth_append)
        ultimately show ?thesis
          using True rp by (intro exI [of _ "length ps"]) auto
      next
        case False
        then have rr: "r = r0" using r by (simp add: more_specific_def)
        have "\<forall>j<length (ps @ [p]). matchesRoute np m ((ps @ [p]) ! j) \<longrightarrow>
              source_length ((ps @ [p]) ! j) \<le> source_length r"
          using i(4) False rr by (auto simp: nth_append less_Suc_eq)
        moreover have "\<forall>j<i. matchesRoute np m ((ps @ [p]) ! j) \<longrightarrow>
              source_length ((ps @ [p]) ! j) < source_length r"
          using i(1,5) rr by (auto simp: nth_append)
        ultimately show ?thesis
          using i(1,2,3) rr by (intro exI [of _ i]) (auto simp: nth_append)
      qed
    qed
  qed
qed

lemma findMatchingRoute_pick:
  "findMatchingRoute ps path method =
     Inr (case normalizePath path of Inl e \<Rightarrow> None | Inr np \<Rightarrow> pick np method ps)"
  by (simp add: findMatchingRoute_def pick_def Let_def split: sum.splits list.splits)

lemma candidates_nth:
  "c \<in> set (route_candidates ps np m) \<longleftrightarrow> (\<exists>j<length ps. ps ! j = c \<and> matchesRoute np m c)"
  by (auto simp: route_candidates_def in_set_conv_nth)

lemma specificRoutes_compiled:
  "computeRoutePatterns RegExp_fragment specificRoutes = Inr specificPatterns"
  by (simp add: specificRoutes_def specificPatterns_def compile_eval string_eval)

lemma specific_normal: "normalizePath (js ''/a/reports'') = Inr (js ''/a/reports'')"
  by (simp add: path_eval string_eval)

lemma specific_candidates:
  "route_candidates specificPatterns (js ''/a/reports'') (js ''GET'') = specificPatterns"
  by (simp add: specificPatterns_def match_eval string_eval)

lemma specific_lengths: "map source_length specificPatterns = [10, 14]"
  by (simp add: specificPatterns_def source_length_def regexPattern_def escape_metacharacters_def
      replace_stars_def escape_slashes_def string_eval)

text \<open>
  Claim C4. When a request has candidates (patterns whose expression matches the
  normalised path and whose verb is \<^verbatim>\<open>*\<close> or the upper-cased method),
  \<open>findMatchingRoute\<close> returns one of them, and no candidate has a longer \<^verbatim>\<open>source\<close>.
  The routes \<^verbatim>\<open>GET /a/*\<close> and \<^verbatim>\<open>GET /a/reports\<close> compile to sources of 10 and 14
  characters, both are candidates for \<^verbatim>\<open>GET /a/reports\<close>, and the route returned is
  \<^verbatim>\<open>/a/reports\<close>, the one priced 1400.
\<close>

theorem findMatchingRoute_longest_source:
  "(normalizePath path = Inr np \<longrightarrow> route_candidates ps np method \<noteq> [] \<longrightarrow>
      (\<exists>r. findMatchingRoute ps path method = Inr (Some r)
         \<and> r \<in> set (route_candidates ps np method)
         \<and> (\<forall>c \<in> set (route_candidates ps np method). source_length c \<le> source_length r)))
   \<and> computeRoutePatterns RegExp_fragment specificRoutes = Inr specificPatterns
   \<and> map source_length (route_candidates specificPatterns (js ''/a/reports'') (js ''GET'')) = [10, 14]
   \<and> map_sum id (map_option config)
        (findMatchingRoute specificPatterns (js ''/a/reports'') (js ''GET'')) =
      Inr (Some (JObj [(js ''network'', JStr (js ''bch'')), (js ''price'', JNum (Finite 1400))]))"
proof (intro conjI impI)
  assume np: "normalizePath path = Inr np" and ne: "route_candidates ps np method \<noteq> []"
  from ne obtain r where r: "pick np method ps = Some r"
    by (cases "route_candidates ps np method") (auto simp: pick_def)
  from pick_earliest_longest [OF r] obtain i where i: "i < length ps" "ps ! i = r"
    "matchesRoute np method r"
    "\<forall>j<length ps. matchesRoute np method (ps ! j) \<longrightarrow> source_length (ps ! j) \<le> source_length r"
    by blast
  have "findMatchingRoute ps path method = Inr (Some r)"
    using np r by (simp add: findMatchingRoute_pick)
  moreover have "r \<in> set (route_candidates ps np method)"
    using i(1,2,3) by (auto simp: candidates_nth)
  moreover have "\<forall>c \<in> set (route_candidates ps np method). source_length c \<le> source_length r"
    using i(4) by (auto simp: candidates_nth)
  ultimately show "\<exists>r. findMatchingRoute ps path method = Inr (Some r)
         \<and> r \<in> set (route_candidates ps np method)
         \<and> (\<forall>c \<in> set (route_candidates ps np method). source_length c \<le> source_length r)"
    by blast
next
  show "computeRoutePatterns RegExp_fragment specificRoutes = Inr specificPatterns"
    by (rule specificRoutes_compiled)
next
  show "map source_length (route_candidates specificPatterns (js ''/a/reports'') (js ''GET'')) = [10, 14]"
    by (simp only: specific_candidates specific_lengths)
next
  have "pick (js ''/a/reports'') (js ''GET'') specificPatterns = Some (specificPatterns ! 1)"
    using specific_lengths
    by (simp add: pick_def specific_candidates) (simp add: specificPatterns_def more_specific_def)
  then show "map_sum id (map_option config)
        (findMatchingRoute specificPatterns (js ''/a/reports'') (js ''GET'')) =
      Inr (Some (JObj [(js ''network'', JStr (js ''bch'')), (js ''price'', JNum (Finite 1400))]))"
    by (simp add: findMatchingRoute_pick specific_normal) (simp add: specificPatterns_def)
qed

theorem findMatchingRoute_longest_source_witness:
  "normalizePath (js ''/a/reports'') = Inr (js ''/a/reports'')
   \<and> route_candidates specificPatterns (js ''/a/reports'') (js ''GET'') \<noteq> []
   \<and> (\<exists>r. findMatchingRoute specificPatterns (js ''/a/reports'') (js ''GET'') = Inr (Some r)
         \<and> r \<in> set (route_candidates specificPatterns (js ''/a/reports'') (js ''GET''))
         \<and> source_length r = 14)"
proof -
  have ne: "route_candidates specificPatterns (js ''/a/reports'') (js ''GET'') \<noteq> []"
    by (simp add: specific_candidates) (simp add: specificPatterns_def)
  from findMatchingRoute_longest_source
    [of "js ''/a/reports''" "js ''/a/reports''" specificPatterns "js ''GET''"]
    specific_normal ne
  obtain r where r: "findMatchingRoute specificPatterns (js ''/a/reports'') (js ''GET'') = Inr (Some r)"
    "r \<in> set (route_candidates specificPatterns (js ''/a/reports'') (js ''GET''))"
    "\<forall>c \<in> set (route_candidates specificPatterns (js ''/a/reports'') (js ''GET'')). source_length c \<le> source_length r"
    by blast
  have img: "source_length ` set specificPatterns = {10, 14}"
    using specific_lengths by (metis list.set_map list.simps(15) empty_set)
  then obtain c where c: "c \<in> set specificPatterns" "source_length c = 14"
    by (metis imageE insertCI)
  have "source_length r \<in> {10, 14}"
    using img r(2) by (auto simp: specific_candidates)
  moreover have "14 \<le> source_length r"
    using c r(3) by (auto simp: specific_candidates)
  ultimately have "source_length r = 14"
    by auto
  with r specific_normal ne show ?thesis
    by blast
qed

section \<open>findMatchingRoute: ties\<close>

lemma tieRoutes_compiled: "computeRoutePatterns RegExp_fragment tieRoutes = Inr tiePatterns"
  by (simp add: tieRoutes_def tiePatterns_def compile_eval string_eval)

lemma tie_normal: "normalizePath (js ''/a/b'') = Inr (js ''/a/b'')"
  by (simp add: path_eval string_eval)

lemma tie_matches:
  "matchesRoute (js ''/a/b'') (js ''GET'') (tiePatterns ! 0)"
  "matchesRoute (js ''/a/b'') (js ''GET'') (tiePatterns ! 1)"
  by (simp_all add: tiePatterns_def matchesRoute_def string_eval)

lemma tie_lengths: "map source_length tiePatterns = [10, 10]"
  by (simp add: tiePatterns_def source_length_def regexPattern_def escape_metacharacters_def
      replace_stars_def escape_slashes_def string_eval)

text \<open>
  Claim C9. When a request has candidates, the route returned stands at an index \<open>i\<close> of
  the compiled list such that no candidate has a longer source and every candidate before
  \<open>i\<close> has a strictly shorter one: among the candidates of maximal source length it is
  the earliest of the list.
\<close>

theorem findMatchingRoute_tie_earliest:
  assumes "normalizePath path = Inr np"
    and "\<exists>j<length ps. matchesRoute np method (ps ! j)"
  shows "\<exists>i<length ps. findMatchingRoute ps path method = Inr (Some (ps ! i))
           \<and> matchesRoute np method (ps ! i)
           \<and> (\<forall>j<length ps. matchesRoute np method (ps ! j) \<longrightarrow>
                  source_length (ps ! j) \<le> source_length (ps ! i))
           \<and> (\<forall>j<i. matchesRoute np method (ps ! j) \<longrightarrow>
                  source_length (ps ! j) < source_length (ps ! i))"
proof -
  from assms(2) have "pick np method ps \<noteq> None"
    by (auto simp: pick_None)
  then obtain r where r: "pick np method ps = Some r"
    by auto
  have "findMatchingRoute ps path method = Inr (Some r)"
    using assms(1) r by (simp add: findMatchingRoute_pick)
  with pick_earliest_longest [OF r] show ?thesis
    by blast
qed

theorem findMatchingRoute_tie_earliest_witness:
  "normalizePath (js ''/a/b'') = Inr (js ''/a/b'')
   \<and> matchesRoute (js ''/a/b'') (js ''GET'') (tiePatterns ! 0)
   \<and> matchesRoute (js ''/a/b'') (js ''GET'') (tiePatterns ! 1)
   \<and> map source_length tiePatterns = [10, 10]
   \<and> findMatchingRoute tiePatterns (js ''/a/b'') (js ''GET'') = Inr (Some (tiePatterns ! 0))"
proof -
  have len: "length tiePatterns = 2"
    by (simp add: tiePatterns_def)
  have "\<exists>j<length tiePatterns. matchesRoute (js ''/a/b'') (js ''GET'') (tiePatterns ! j)"
    using tie_matches(1) len by (intro exI [of _ 0]) simp
  from findMatchingRoute_tie_earliest [OF tie_normal this]
  obtain i where i: "i < length tiePatterns"
    "findMatchingRoute tiePatterns (js ''/a/b'') (js ''GET'') = Inr (Some (tiePatterns ! i))"
    "\<forall>j<i. matchesRoute (js ''/a/b'') (js ''GET'') (tiePatterns ! j) \<longrightarrow>
        source_length (tiePatterns ! j) < source_length (tiePatterns ! i)"
    by blast
  have sl: "source_length (tiePatterns ! 0) = 10" "source_length (tiePatterns ! 1) = 10"
    using tie_lengths by (simp_all add: tiePatterns_def)
  have "i = 0"
  proof (rule ccontr)
    assume "i \<noteq> 0"
    then have "i = 1" using i(1) len by simp
    with i(3) tie_matches(1) sl show False by simp
  qed
  with i(2) tie_normal tie_matches tie_lengths show ?thesis
    by simp
qed

section \<open>findMatchingRoute: malformed percent-encoding\<close>

text \<open>
  Claim C5. For every pattern list, path and method \<open>findMatchingRoute\<close> returns and
  does not throw; when \<^verbatim>\<open>decodeURIComponent\<close> throws on the path without its query, the
  result is \<^verbatim>\<open>undefined\<close>. Decoding \<^verbatim>\<open>/%E0%A4%A\<close> throws a URIError, and matching that
  path returns \<^verbatim>\<open>undefined\<close> whatever the patterns.
\<close>

theorem findMatchingRoute_never_throws:
  "(\<exists>r. findMatchingRoute ps path method = Inr r)
   \<and> (decodeURIComponent (pathWithoutQuery path) = Inl e \<longrightarrow>
        findMatchingRoute ps path method = Inr None)
   \<and> decodeURIComponent (pathWithoutQuery (js ''/%E0%A4%A'')) = Inl uri_malformed
   \<and> findMatchingRoute ps (js ''/%E0%A4%A'') method = Inr None"
proof -
  have bad: "decodeURIComponent (pathWithoutQuery (js ''/%E0%A4%A'')) = Inl uri_malformed"
    by (simp add: path_eval string_eval numeral_2_eq_2)
  have soft: "findMatchingRoute ps p method = Inr None"
    if "decodeURIComponent (pathWithoutQuery p) = Inl x" for p x
    using that by (simp add: findMatchingRoute_def normalizePath_def)
  have "\<exists>r. findMatchingRoute ps path method = Inr r"
    by (simp add: findMatchingRoute_pick)
  with bad soft show ?thesis
    by blast
qed

theorem findMatchingRoute_never_throws_witness:
  "decodeURIComponent (pathWithoutQuery (js ''/%E0%A4%A?x=1'')) = Inl uri_malformed
   \<and> findMatchingRoute specificPatterns (js ''/%E0%A4%A?x=1'') (js ''GET'') = Inr None"
proof -
  have bad: "decodeURIComponent (pathWithoutQuery (js ''/%E0%A4%A?x=1'')) = Inl uri_malformed"
    by (simp add: path_eval string_eval numeral_2_eq_2)
  with findMatchingRoute_never_throws
    [of specificPatterns "js ''/%E0%A4%A?x=1''" "js ''GET''" uri_malformed]
  show ?thesis
    by blast
qed

section \<open>computeRoutePatterns: invalid pattern keys\<close>

lemma pieces_gap: "pieces True [] s = pieces False [] (dropWhile is_space s)"
  by (induction s) auto

lemma pieces_acc: "pieces False acc s =
   (rev acc @ takeWhile (\<lambda>c. \<not> is_space c) s) #
     (if dropWhile (\<lambda>c. \<not> is_space c) s = [] then []
      else pieces False [] (dropWhile is_space (dropWhile (\<lambda>c. \<not> is_space c) s)))"
proof (induction s arbitrary: acc)
  case Nil
  then show ?case by simp
next
  case (Cons c s)
  show ?case
  proof (cases "is_space c")
    case True
    then show ?thesis by (simp add: pieces_gap)
  next
    case False
    then show ?thesis using Cons.IH [of "c # acc"] by simp
  qed
qed

lemma split_spaces_unfold:
  "split_spaces s =
     takeWhile (\<lambda>c. \<not> is_space c) s #
       (if dropWhile (\<lambda>c. \<not> is_space c) s = [] then []
        else split_spaces (dropWhile is_space (dropWhile (\<lambda>c. \<not> is_space c) s)))"
  using pieces_acc [of "[]" s] by (simp add: split_spaces_def)

lemma space_is_space: "is_space (ch CHR '' '')"
  by (simp add: is_space_def)

lemma key_path_falsy:
  "(key_path key = None \<or> key_path key = Some []) \<longleftrightarrow>
     ch CHR '' '' \<in> set key \<and> (\<forall>c \<in> set key. is_space c)"
proof (cases "ch CHR '' '' \<in> set key")
  case False
  then show ?thesis
    by (cases key) (auto simp: key_path_def key_parts_def element_def js_def)
next
  case True
  let ?nonsp = "\<lambda>c. \<not> is_space c"
  let ?rest = "dropWhile is_space (dropWhile ?nonsp key)"
  from True have ne: "dropWhile ?nonsp key \<noteq> []"
    using space_is_space by (auto simp: dropWhile_eq_Nil_conv)
  have "split_spaces key = takeWhile ?nonsp key # split_spaces ?rest"
    using ne by (subst split_spaces_unfold) (simp only: if_False)
  then have parts: "key_parts key = takeWhile ?nonsp key # split_spaces ?rest"
    using True by (simp only: key_parts_def if_True)
  have second: "split_spaces ?rest = takeWhile ?nonsp ?rest # tl (split_spaces ?rest)"
    using split_spaces_unfold [of ?rest] by (metis list.sel(3))
  have p0: "element (key_parts key) 0 = Some (takeWhile ?nonsp key)"
    by (simp add: parts element_def)
  have p1: "element (key_parts key) 1 = Some (takeWhile ?nonsp ?rest)"
  proof -
    obtain t where "split_spaces ?rest = takeWhile ?nonsp ?rest # t"
      using second by blast
    then show ?thesis
      by (simp add: parts element_def)
  qed
  have falsy: "(key_path key = None \<or> key_path key = Some []) \<longleftrightarrow>
      takeWhile ?nonsp key = [] \<and> takeWhile ?nonsp ?rest = []"
    unfolding key_path_def p0 p1
    by (cases "takeWhile ?nonsp ?rest"; cases "takeWhile ?nonsp key") auto
  have rest_hd: "?rest \<noteq> [] \<Longrightarrow> \<not> is_space (hd ?rest)"
    by (rule hd_dropWhile)
  have "takeWhile ?nonsp ?rest = [] \<longleftrightarrow> ?rest = []"
    using rest_hd by (cases ?rest) (auto simp del: dropWhile_eq_Nil_conv)
  moreover have "takeWhile ?nonsp key = [] \<and> ?rest = [] \<longleftrightarrow> (\<forall>c \<in> set key. is_space c)"
  proof
    assume a: "takeWhile ?nonsp key = [] \<and> ?rest = []"
    then have "dropWhile ?nonsp key = key"
      by (metis takeWhile_dropWhile_id append_Nil)
    with a show "\<forall>c \<in> set key. is_space c"
      by (simp add: dropWhile_eq_Nil_conv)
  next
    assume a: "\<forall>c \<in> set key. is_space c"
    then have "takeWhile ?nonsp key = []"
      by (cases key) auto
    moreover from this have "dropWhile ?nonsp key = key"
      by (metis takeWhile_dropWhile_id append_Nil)
    ultimately show "takeWhile ?nonsp key = [] \<and> ?rest = []"
      using a by (simp add: dropWhile_eq_Nil_conv)
  qed
  ultimately show ?thesis
    using falsy True by simp
qed


lemma set_prop_fresh: "k \<notin> fst ` set kvs \<Longrightarrow> set_prop kvs k v = kvs @ [(k, v)]"
  by (induction kvs) auto

lemma assign_entries_distinct:
  "distinct (map fst (acc @ kvs)) \<Longrightarrow> assign_entries acc kvs = acc @ kvs"
proof (induction kvs arbitrary: acc)
  case Nil
  then show ?case by (simp add: assign_entries_def)
next
  case (Cons kv kvs)
  obtain k v where kv: "kv = (k, v)" by (cases kv)
  from Cons.prems have fresh: "k \<notin> fst ` set acc"
    by (auto simp: kv)
  from Cons.prems have "distinct (map fst ((acc @ [(k, v)]) @ kvs))"
    by (simp add: kv)
  from Cons.IH [OF this] show ?case
    using fresh by (simp add: assign_entries_def kv set_prop_fresh)
qed

lemma normalizedRoutes_distinct:
  assumes "distinct (map fst routes)"
  shows "normalizedRoutes routes =
           map (\<lambda>(key, value). (key, normalizedValue routes value)) (route_entries routes)"
proof -
  let ?es = "map (\<lambda>(key, value). (key, normalizedValue routes value)) (route_entries routes)"
  have "map fst ?es = map fst (route_entries routes)"
    by (simp add: case_prod_beta comp_def)
  moreover have "distinct (map fst (route_entries routes))"
    using assms by (simp add: route_entries_def distinct_map_filter)
  ultimately have "distinct (map fst ([] @ ?es))"
    by (simp only: append_Nil)
  from assign_entries_distinct [OF this] show ?thesis
    by (simp add: normalizedRoutes_def Object_fromEntries_def route_entries_def)
qed

lemma map_throwing_all:
  "(\<forall>x \<in> set xs. \<exists>y. f x = Inr y) \<Longrightarrow>
     \<exists>ys. map_throwing f xs = Inr ys \<and> map Inr ys = map f xs"
  by (induction xs) auto

lemma map_throwing_some:
  "x \<in> set xs \<Longrightarrow> f x = Inl e \<Longrightarrow> \<exists>e'. map_throwing f xs = Inl e'"
proof (induction xs)
  case Nil
  then show ?case by simp
next
  case (Cons a xs)
  show ?case
  proof (cases "f a")
    case (Inl e0)
    then show ?thesis by simp
  next
    case (Inr y)
    with Cons.prems have "x \<in> set xs" by auto
    from Cons.IH [OF this Cons.prems(2)] Inr show ?thesis by auto
  qed
qed

lemma compileRoute_blank:
  "blank_key key \<Longrightarrow> compileRoute RegExp_i (key, cfg) = Inl (invalid_route_pattern key)"
  using key_path_falsy [of key]
  by (auto simp: blank_key_def compileRoute_def invalid_route_pattern_def)

lemma compileRoute_not_blank:
  "\<not> blank_key key \<Longrightarrow>
     \<exists>path. path \<noteq> [] \<and> key_path key = Some path \<and>
       compileRoute RegExp_i (key, cfg) =
         (case RegExp_i (regexPattern path) of
            Inl e \<Rightarrow> Inl e
          | Inr re \<Rightarrow> Inr \<lparr> verb = key_verb key, pattern = re, config = cfg \<rparr>)"
  using key_path_falsy [of key]
  by (cases "key_path key") (auto simp: blank_key_def compileRoute_def)

text \<open>
  Claim C7, as amended. \<open>compileRoute\<close> throws the error \<^verbatim>\<open>Invalid route pattern\<close> exactly
  for the keys that hold a space and nothing but white space. For any other key the path
  is not empty (the second piece of the key or, when that is empty, the first: the verb
  token, or \<^verbatim>\<open>*\<close> for the empty key), and the key compiles to one entry unless the RegExp
  constructor throws on the expression written for the path. For a routes object with
  distinct keys: when no route key is refused and the constructor accepts every
  expression, \<open>computeRoutePatterns\<close> returns one entry per key other than \<^verbatim>\<open>network\<close>, in
  order; when a route key is refused, it throws.
\<close>

theorem computeRoutePatterns_invalid_route_pattern:
  assumes "distinct (map fst routes)"
  shows "(blank_key key \<longrightarrow> compileRoute RegExp_i (key, cfg) = Inl (invalid_route_pattern key))
    \<and> (\<not> blank_key key \<longrightarrow>
         (\<exists>path. path \<noteq> [] \<and> key_path key = Some path \<and>
            compileRoute RegExp_i (key, cfg) =
              (case RegExp_i (regexPattern path) of
                 Inl e \<Rightarrow> Inl e
               | Inr re \<Rightarrow> Inr \<lparr> verb = key_verb key, pattern = re, config = cfg \<rparr>)))
    \<and> ((\<forall>(k, v) \<in> set (route_entries routes).
           \<not> blank_key k \<and> (\<exists>re. RegExp_i (regexPattern (the (key_path k))) = Inr re)) \<longrightarrow>
         (\<exists>ps. computeRoutePatterns RegExp_i routes = Inr ps
            \<and> length ps = length (route_entries routes)
            \<and> map verb ps = map (\<lambda>(k, v). key_verb k) (route_entries routes)
            \<and> map config ps = map (\<lambda>(k, v). normalizedValue routes v) (route_entries routes)))
    \<and> ((\<exists>(k, v) \<in> set (route_entries routes). blank_key k) \<longrightarrow>
         (\<exists>e. computeRoutePatterns RegExp_i routes = Inl e))"
proof (intro conjI impI)
  assume "blank_key key"
  then show "compileRoute RegExp_i (key, cfg) = Inl (invalid_route_pattern key)"
    by (rule compileRoute_blank)
next
  assume "\<not> blank_key key"
  then show "\<exists>path. path \<noteq> [] \<and> key_path key = Some path \<and>
            compileRoute RegExp_i (key, cfg) =
              (case RegExp_i (regexPattern path) of
                 Inl e \<Rightarrow> Inl e
               | Inr re \<Rightarrow> Inr \<lparr> verb = key_verb key, pattern = re, config = cfg \<rparr>)"
    by (rule compileRoute_not_blank)
next
  let ?es = "map (\<lambda>(key, value). (key, normalizedValue routes value)) (route_entries routes)"
  assume ok: "\<forall>(k, v) \<in> set (route_entries routes).
           \<not> blank_key k \<and> (\<exists>re. RegExp_i (regexPattern (the (key_path k))) = Inr re)"
  have each: "compileRoute RegExp_i (k, c) =
        Inr \<lparr> verb = key_verb k, pattern = projr (RegExp_i (regexPattern (the (key_path k)))), config = c \<rparr>"
    if "(k, v) \<in> set (route_entries routes)" for k v c
  proof -
    from ok that have nb: "\<not> blank_key k"
      and re: "\<exists>re. RegExp_i (regexPattern (the (key_path k))) = Inr re"
      by auto
    from compileRoute_not_blank [OF nb, of RegExp_i c] re show ?thesis
      by auto
  qed
  then have "\<forall>x \<in> set ?es. \<exists>y. compileRoute RegExp_i x = Inr y"
    by auto
  from map_throwing_all [OF this] obtain ps where ps:
    "map_throwing (compileRoute RegExp_i) ?es = Inr ps"
    "map Inr ps = map (compileRoute RegExp_i) ?es"
    by blast
  have comp: "computeRoutePatterns RegExp_i routes = Inr ps"
    using ps(1) assms by (simp add: computeRoutePatterns_def normalizedRoutes_distinct)
  have len: "length ps = length (route_entries routes)"
    using ps(2) by (metis length_map)
  have nth: "ps ! i = \<lparr> verb = key_verb (fst (route_entries routes ! i)),
        pattern = projr (RegExp_i (regexPattern (the (key_path (fst (route_entries routes ! i)))))),
        config = normalizedValue routes (snd (route_entries routes ! i)) \<rparr>"
    if "i < length (route_entries routes)" for i
  proof -
    have "Inr (ps ! i) = map Inr ps ! i"
      using that len by simp
    also have "\<dots> = compileRoute RegExp_i (?es ! i)"
      using that ps(2) by simp
    also have "\<dots> = compileRoute RegExp_i
        (fst (route_entries routes ! i), normalizedValue routes (snd (route_entries routes ! i)))"
      using that by (simp add: case_prod_beta)
    finally show ?thesis
      using each [of "fst (route_entries routes ! i)" "snd (route_entries routes ! i)"] that
      by simp
  qed
  have "map verb ps = map (\<lambda>(k, v). key_verb k) (route_entries routes)"
    using len nth by (intro nth_equalityI) (simp_all add: case_prod_beta)
  moreover have "map config ps = map (\<lambda>(k, v). normalizedValue routes v) (route_entries routes)"
    using len nth by (intro nth_equalityI) (simp_all add: case_prod_beta)
  ultimately show "\<exists>ps. computeRoutePatterns RegExp_i routes = Inr ps
            \<and> length ps = length (route_entries routes)
            \<and> map verb ps = map (\<lambda>(k, v). key_verb k) (route_entries routes)
            \<and> map config ps = map (\<lambda>(k, v). normalizedValue routes v) (route_entries routes)"
    using comp len by blast
next
  let ?es = "map (\<lambda>(key, value). (key, normalizedValue routes value)) (route_entries routes)"
  assume "\<exists>(k, v) \<in> set (route_entries routes). blank_key k"
  then obtain k v where kv: "(k, v) \<in> set (route_entries routes)" "blank_key k"
    by auto
  then have "(k, normalizedValue routes v) \<in> set ?es"
    by force
  from map_throwing_some
    [of "(k, normalizedValue routes v)" ?es "compileRoute RegExp_i" "invalid_route_pattern k"]
    this compileRoute_blank [OF kv(2), of RegExp_i "normalizedValue routes v"]
  obtain e where "map_throwing (compileRoute RegExp_i) ?es = Inl e"
    by blast
  then show "\<exists>e. computeRoutePatterns RegExp_i routes = Inl e"
    using assms by (simp add: computeRoutePatterns_def normalizedRoutes_distinct)
qed


text \<open>
  The claim as first stated fails: the key \<^verbatim>\<open>GET \<close> names a verb and no path, and it
  compiles to an entry whose path is the verb token.
\<close>

theorem computeRoutePatterns_verb_only_counterexample:
  "key_path (js ''GET '') = Some (js ''GET'')
   \<and> computeRoutePatterns RegExp_fragment [(js ''GET '', JNum (Finite 1000))] =
       Inr [\<lparr> verb = js ''GET'',
              pattern = \<lparr> source = js ''^GET$'', test = rx_match (map Lit (js ''GET'')) \<rparr>,
              config = JObj [(js ''price'', JNum (Finite 1000)), (js ''network'', JStr (js ''bch''))] \<rparr>]"
  by (simp add: compile_eval string_eval)

theorem computeRoutePatterns_invalid_route_pattern_witness:
  "distinct (map fst verbOnlyRoutes)
   \<and> blank_key (js '' '')
   \<and> compileRoute RegExp_fragment (js '' '', JNull) = Inl (invalid_route_pattern (js '' ''))
   \<and> \<not> blank_key (js ''GET '')
   \<and> key_path (js ''GET '') = Some (js ''GET'')
   \<and> (\<exists>ps. computeRoutePatterns RegExp_fragment verbOnlyRoutes = Inr ps
          \<and> map verb ps = [js ''GET'', js ''*''])"
proof -
  have d: "distinct (map fst verbOnlyRoutes)"
    by (simp add: verbOnlyRoutes_def js_def)
  have b: "blank_key (js '' '')"
    by (simp add: blank_key_def string_eval)
  have entries: "route_entries verbOnlyRoutes =
      [(js ''GET '', JNum (Finite 1000)), (js ''/open'', JNum (Finite 1200))]"
    by (simp add: route_entries_def verbOnlyRoutes_def js_def)
  have nb: "\<not> blank_key (js ''GET '')" "\<not> blank_key (js ''/open'')"
    by (simp_all add: blank_key_def string_eval)
  have kp: "key_path (js ''GET '') = Some (js ''GET'')" "key_path (js ''/open'') = Some (js ''/open'')"
    by (simp_all add: compile_eval string_eval)
  have re: "\<exists>re. RegExp_fragment (regexPattern (js ''GET'')) = Inr re"
    "\<exists>re. RegExp_fragment (regexPattern (js ''/open'')) = Inr re"
    by (simp_all add: compile_eval string_eval)
  have ok: "\<forall>(k, v) \<in> set (route_entries verbOnlyRoutes).
      \<not> blank_key k \<and> (\<exists>re. RegExp_fragment (regexPattern (the (key_path k))) = Inr re)"
    using nb kp re by (simp add: entries)
  have kv: "map (\<lambda>(k, v). key_verb k) (route_entries verbOnlyRoutes) = [js ''GET'', js ''*'']"
    by (simp add: entries) (simp add: compile_eval string_eval)
  from computeRoutePatterns_invalid_route_pattern
    [OF d, of "js '' ''" RegExp_fragment JNull] b ok kv nb(1) kp(1) d
  show ?thesis
    by auto
qed

section \<open>The examples of the tests\<close>

lemma baseRoutes_compiled: "computeRoutePatterns RegExp_fragment baseRoutes = Inr basePatterns"
  by (simp add: baseRoutes_def basePatterns_def compile_eval string_eval)

lemma parse_valid: "parseJSON validPaymentPayload = Inr decodedValidPayment"
  by (simp add: validPaymentPayload_def decodedValidPayment_def json_eval string_eval number_eval)

lemma parse_null: "parseJSON (js ''null'') = Inr JNull"
  by (simp add: json_eval string_eval number_eval)

lemma protected_match:
  "findMatchingRoute basePatterns (js ''/protected'') (js ''GET'') = Inr (Some (basePatterns ! 0))"
  by (simp add: basePatterns_def match_eval path_eval string_eval)

lemma protected_requirements:
  "buildPaymentRequirements payToAddress (config (basePatterns ! 0)) protectedRequest =
     Inr [protectedRequirement]"
  by (simp add: basePatterns_def protectedRequest_def protectedRequirement_def requirements_eval
      amount_eval number_eval string_eval)

lemma decode_valid:
  "decodePaymentHeader parseJSON validPaymentPayload x402Version = Inr decodedValidPayment"
  by (simp add: parse_valid decode_eval) (simp add: decodedValidPayment_def js_def)

lemma select_valid:
  "selectPaymentRequirements [protectedRequirement] decodedValidPayment = Some protectedRequirement"
  by (simp add: selectPaymentRequirements_def protectedRequirement_def decodedValidPayment_def js_def)

section \<open>resolveMinAmountRequired: amounts below one\<close>

lemma floor_half: "\<lfloor>(1::rat) / 2\<rfloor> = 0"
  by (simp add: floor_eq_iff)

lemma half_config:
  "map config (projr (computeRoutePatterns RegExp_fragment halfAmountRoutes)) = [halfAmountConfig]"
  by (simp add: halfAmountRoutes_def halfAmountConfig_def compile_eval string_eval)

text \<open>
  Claim C3 (the code departs from it). The route \<^verbatim>\<open>{ minAmountRequired: 0.5 }\<close> passes the
  check of \<open>resolveMinAmountRequired\<close> (0.5 is finite and positive), the amount is its
  floor, and the requirement carries \<^verbatim>\<open>minAmountRequired: "0"\<close>: not a positive integer.
\<close>

theorem fractional_amount_rounds_to_zero:
  "map config (projr (computeRoutePatterns RegExp_fragment halfAmountRoutes)) = [halfAmountConfig]
   \<and> resolveMinAmountRequired halfAmountConfig = Inr 0
   \<and> map_sum id (map (\<lambda>r. get_prop r (js ''minAmountRequired'')))
        (buildPaymentRequirements payToAddress halfAmountConfig protectedRequest) =
      Inr [JStr (js ''0'')]"
proof -
  have r: "resolveMinAmountRequired halfAmountConfig = Inr 0"
    by (simp add: halfAmountConfig_def amount_eval js_def floor_half)
  have "map_sum id (map (\<lambda>r. get_prop r (js ''minAmountRequired'')))
        (buildPaymentRequirements payToAddress halfAmountConfig protectedRequest) =
      Inr [JStr (js ''0'')]"
    by (simp add: buildPaymentRequirements_def r)
      (simp add: halfAmountConfig_def Let_def number_eval js_def)
  with r half_config show ?thesis
    by simp
qed

theorem fractional_amount_rounds_to_zero_witness:
  "\<not> nullish (get_prop halfAmountConfig (js ''minAmountRequired''))
   \<and> isFinite (Number (get_prop halfAmountConfig (js ''minAmountRequired'')))
   \<and> positive (Number (get_prop halfAmountConfig (js ''minAmountRequired'')))
   \<and> resolveMinAmountRequired halfAmountConfig = Inr 0"
  using fractional_amount_rounds_to_zero by (simp add: halfAmountConfig_def js_def)

section \<open>decodePaymentHeader: the required fields\<close>

lemma check_fields_object:
  "check_fields (JObj kvs) (before @ field # after) = Some (missing_field field)"
  if "\<forall>f \<in> set before. \<not> nullish (get_prop (JObj kvs) f)"
    and "nullish (get_prop (JObj kvs) field)"
  using that by (induction before) auto

text \<open>
  Claim C10, as amended. When the header parses to an object, the fields are checked in
  the order \<^verbatim>\<open>x402Version\<close>, \<^verbatim>\<open>scheme\<close>, \<^verbatim>\<open>network\<close>, \<^verbatim>\<open>payload\<close>, and the first one whose
  value is null (or undefined), like one that is absent, makes \<open>decodePaymentHeader\<close>
  throw the missing-field error that names it: a required field whose value is null is
  named when the required fields before it in the list are there and not null.
\<close>

theorem decodePaymentHeader_null_field:
  assumes "parse headerValue = Inr (JObj kvs)"
    and "requiredFields = before @ field # after"
    and "\<forall>f \<in> set before. \<not> nullish (get_prop (JObj kvs) f)"
    and "map_of kvs field = Some JNull \<or> map_of kvs field = Some JUndefined \<or> map_of kvs field = None"
  shows "decodePaymentHeader parse headerValue v = Inl (missing_field field)"
proof -
  from assms(4) have "nullish (get_prop (JObj kvs) field)"
    by auto
  from check_fields_object [OF assms(3) this]
  have "check_fields (JObj kvs) requiredFields = Some (missing_field field)"
    by (simp add: assms(2))
  then show ?thesis
    by (simp add: decodePaymentHeader_def assms(1))
qed

theorem decodePaymentHeader_null_field_witness:
  "parseJSON nullSchemePayload =
     Inr (JObj [(js ''x402Version'', JNum (Finite 1)), (js ''scheme'', JNull),
                (js ''network'', JStr (js ''bch'')), (js ''payload'', JObj [])])
   \<and> decodePaymentHeader parseJSON nullSchemePayload x402Version =
       Inl (Error (js ''Missing required field in payment payload: scheme''))"
proof -
  let ?kvs = "[(js ''x402Version'', JNum (Finite 1)), (js ''scheme'', JNull),
                (js ''network'', JStr (js ''bch'')), (js ''payload'', JObj [])]"
  have p: "parseJSON nullSchemePayload = Inr (JObj ?kvs)"
    by (simp add: nullSchemePayload_def json_eval string_eval number_eval)
  have f: "requiredFields = [js ''x402Version''] @ js ''scheme'' # [js ''network'', js ''payload'']"
    by (simp add: requiredFields_def)
  have b: "\<forall>f \<in> set [js ''x402Version'']. \<not> nullish (get_prop (JObj ?kvs) f)"
    by (simp add: js_def)
  have n: "map_of ?kvs (js ''scheme'') = Some JNull \<or> map_of ?kvs (js ''scheme'') = Some JUndefined
      \<or> map_of ?kvs (js ''scheme'') = None"
    by (simp add: js_def)
  from decodePaymentHeader_null_field
    [of parseJSON nullSchemePayload ?kvs "[js ''x402Version'']" "js ''scheme''"
      "[js ''network'', js ''payload'']" x402Version]
    p f b n
  show ?thesis
    by (simp add: missing_field_def js_def)
qed

text \<open>
  The claim as first stated fails: in the header \<^verbatim>\<open>{"scheme":null}\<close> the value of
  \<^verbatim>\<open>scheme\<close> is null, and the error names \<^verbatim>\<open>x402Version\<close>, the first field of the list
  that is missing, not \<^verbatim>\<open>scheme\<close>.
\<close>

theorem decodePaymentHeader_null_field_counterexample:
  "parseJSON schemeOnlyPayload = Inr (JObj [(js ''scheme'', JNull)])
   \<and> decodePaymentHeader parseJSON schemeOnlyPayload x402Version =
       Inl (Error (js ''Missing required field in payment payload: x402Version''))
   \<and> decodePaymentHeader parseJSON schemeOnlyPayload x402Version \<noteq>
       Inl (Error (js ''Missing required field in payment payload: scheme''))"
proof -
  have p: "parseJSON schemeOnlyPayload = Inr (JObj [(js ''scheme'', JNull)])"
    by (simp add: schemeOnlyPayload_def json_eval string_eval number_eval)
  show ?thesis
    by (simp add: p decode_eval) (simp add: js_def)
qed

section \<open>The handler, branch by branch\<close>

lemma handler_unmatched:
  "findMatchingRoute ps (req_path req) (req_method req) = Inr None \<Longrightarrow>
     paymentMiddlewareHandler h payTo ps fac req fx = (None, call_next fx)"
  by (simp add: paymentMiddlewareHandler_def)

lemma handler_build_throws:
  "findMatchingRoute ps (req_path req) (req_method req) = Inr (Some route) \<Longrightarrow>
   buildPaymentRequirements payTo (config route) req = Inl e \<Longrightarrow>
     paymentMiddlewareHandler h payTo ps fac req fx = (Some e, fx)"
  by (simp add: paymentMiddlewareHandler_def)




lemma handler_verify_throws:
  "findMatchingRoute ps (req_path req) (req_method req) = Inr (Some route) \<Longrightarrow>
   buildPaymentRequirements payTo (config route) req = Inr reqs \<Longrightarrow>
   string_or (req_x_payment req) None = Some hdr \<Longrightarrow>
   decodePaymentHeader (JSON_parse h) hdr x402Version = Inr dp \<Longrightarrow>
   selectPaymentRequirements reqs dp = Some sel \<Longrightarrow>
   verifyPayment h fac dp sel = Inl error \<Longrightarrow>
     paymentMiddlewareHandler h payTo ps fac req fx = catch_verification error reqs fx"
  by (simp add: paymentMiddlewareHandler_def)

lemma catch_error_object:
  "catch_verification (ErrorObject e) reqs fx =
     (None, respond 402 (challenge (message_or e (js ''Payment verification failed'')) reqs) fx)"
  by (simp add: catch_verification_def respond_def message_or_def)

lemma catch_value:
  "\<not> nullish v \<Longrightarrow>
     catch_verification (PlainValue v) reqs fx =
       (None, respond 402
          (challenge (js_or (get_prop v (js ''message'')) (JStr (js ''Payment verification failed'')))
             reqs) fx)"
  by (cases v) (simp_all add: catch_verification_def respond_def)


lemma handler_verified:
  "findMatchingRoute ps (req_path req) (req_method req) = Inr (Some route) \<Longrightarrow>
   buildPaymentRequirements payTo (config route) req = Inr reqs \<Longrightarrow>
   string_or (req_x_payment req) None = Some hdr \<Longrightarrow>
   decodePaymentHeader (JSON_parse h) hdr x402Version = Inr dp \<Longrightarrow>
   selectPaymentRequirements reqs dp = Some sel \<Longrightarrow>
   verifyPayment h fac dp sel = Inr res \<Longrightarrow>
     paymentMiddlewareHandler h payTo ps fac req fx =
       (case read_prop res (js ''isValid'') of
          Inl e \<Rightarrow> catch_verification (ErrorObject e) reqs fx
        | Inr isValid \<Rightarrow>
            if \<not> truthy isValid then
              (None, respond 402
                 (rejection
                    (js_or (get_prop res (js ''invalidReason'')) (JStr (js ''Payment verification failed'')))
                    reqs
                    (js_or (get_prop res (js ''payer'')) (JStr [])))
                 fx)
            else (None, call_next fx))"
  by (simp add: paymentMiddlewareHandler_def)


lemma read_prop_nullish: "nullish res \<Longrightarrow> \<exists>e. read_prop res k = Inl e"
  by (cases res) auto

lemma read_prop_value: "\<not> nullish res \<Longrightarrow> read_prop res k = Inr (get_prop res k)"
  by (cases res) auto

lemma respond_once:
  "respond 402 body no_effects = \<lparr> status_calls = [402], json_calls = [body], next_calls = 0 \<rparr>"
  by (simp add: respond_def res_status_def res_json_def no_effects_def)

lemma status_once:
  "res_status 402 no_effects = \<lparr> status_calls = [402], json_calls = [], next_calls = 0 \<rparr>"
  by (simp add: res_status_def no_effects_def)


section \<open>The handler: one outcome for each request\<close>


section \<open>The handler: an amount that is not positive\<close>

lemma protected_path:
  "req_path protectedRequest = js ''/protected''" "req_method protectedRequest = js ''GET''"
  "string_or (req_x_payment protectedRequest) None = Some validPaymentPayload"
  by (simp_all add: protectedRequest_def validPaymentPayload_def dq_def js_def)




lemma responding_verify:
  "verifyPayment bareHost (respondingFacilitator (okResponse body)) dp sel = Inr body"
  by (simp add: verifyPayment_def resolveFetch_def resolveFacilitatorHeaders_def
      respondingFacilitator_def okResponse_def bareHost_def)

lemma bareHost_parse: "JSON_parse bareHost = parseJSON"
  by (simp add: bareHost_def)


lemma rejecting_verify:
  "verifyPayment bareHost (rejectingFacilitator error) dp sel = Inl error"
  by (simp add: verifyPayment_def resolveFetch_def resolveFacilitatorHeaders_def
      rejectingFacilitator_def bareHost_def)

text \<open>
  A transport that rejects with undefined: the handler calls \<^verbatim>\<open>res.status(402)\<close> and its
  promise is rejected with the TypeError of reading the message of undefined; a transport
  that rejects with the string \<^verbatim>\<open>boom\<close>, which has no message, gets the 402 response with
  the fallback text.
\<close>

lemma handler_undefined_rejection:
  "paymentMiddlewareHandler bareHost payToAddress basePatterns
      (rejectingFacilitator (PlainValue JUndefined)) protectedRequest no_effects =
     (Some (TypeError (js ''Cannot read properties of undefined (reading '' @ [39]
              @ js ''message'' @ [39] @ js '')'')),
      \<lparr> status_calls = [402], json_calls = [], next_calls = 0 \<rparr>)"
proof -
  have "paymentMiddlewareHandler bareHost payToAddress basePatterns
      (rejectingFacilitator (PlainValue JUndefined)) protectedRequest no_effects =
      catch_verification (PlainValue JUndefined) [protectedRequirement] no_effects"
    by (rule handler_verify_throws
        [where route = "basePatterns ! 0" and hdr = validPaymentPayload
          and dp = decodedValidPayment and sel = protectedRequirement])
      (simp_all add: protected_path protected_match protected_requirements bareHost_parse
        decode_valid select_valid rejecting_verify)
  then show ?thesis
    by (simp add: catch_verification_def status_once cannot_read_def js_def)
qed

lemma handler_string_rejection:
  "paymentMiddlewareHandler bareHost payToAddress basePatterns
      (rejectingFacilitator (PlainValue (JStr (js ''boom'')))) protectedRequest no_effects =
     (None,
      \<lparr> status_calls = [402],
        json_calls = [challenge (JStr (js ''Payment verification failed'')) [protectedRequirement]],
        next_calls = 0 \<rparr>)"
proof -
  have "paymentMiddlewareHandler bareHost payToAddress basePatterns
      (rejectingFacilitator (PlainValue (JStr (js ''boom'')))) protectedRequest no_effects =
      catch_verification (PlainValue (JStr (js ''boom''))) [protectedRequirement] no_effects"
    by (rule handler_verify_throws
        [where route = "basePatterns ! 0" and hdr = validPaymentPayload
          and dp = decodedValidPayment and sel = protectedRequirement])
      (simp_all add: protected_path protected_match protected_requirements bareHost_parse
        decode_valid select_valid rejecting_verify)
  then show ?thesis
    by (simp add: catch_value respond_once js_or_def)
qed

section \<open>The handler: no transport\<close>

text \<open>
  The handler's promise is rejected only with what \<open>buildPaymentRequirements\<close> throws.
\<close>

lemma read_prop_throws: "read_prop v k = Inl e \<Longrightarrow> \<exists>w. e = cannot_read w k"
  by (cases v) auto

lemma resolveMinAmountRequired_throws:
  assumes "resolveMinAmountRequired c = Inl e"
  shows "e = Error (js ''minAmountRequired must be a positive number'') \<or> (\<exists>w k. e = cannot_read w k)"
proof -
  let ?c = "case c of JUndefined \<Rightarrow> JObj [] | v \<Rightarrow> v"
  show ?thesis
  proof (cases "read_prop ?c (js ''minAmountRequired'')")
    case (Inl e')
    with assms have "e = e'"
      by (simp add: resolveMinAmountRequired_def)
    with read_prop_throws [OF Inl] show ?thesis
      by blast
  next
    case (Inr m)
    with assms have "e = Error (js ''minAmountRequired must be a positive number'')"
      by (auto simp: resolveMinAmountRequired_def Let_def
          split: if_splits jsval.splits option.splits)
    then show ?thesis
      by simp
  qed
qed

lemma buildPaymentRequirements_throws:
  assumes "buildPaymentRequirements payTo c req = Inl e"
  shows "e = Error (js ''minAmountRequired must be a positive number'') \<or> (\<exists>w k. e = cannot_read w k)"
proof (cases "resolveMinAmountRequired c")
  case (Inl e')
  with assms have "e = e'"
    by (simp add: buildPaymentRequirements_def)
  with resolveMinAmountRequired_throws [OF Inl] show ?thesis
    by simp
next
  case (Inr amount)
  show ?thesis
  proof (cases "read_prop c (js ''network'')")
    case (Inl e')
    with assms Inr have "e = e'"
      by (simp add: buildPaymentRequirements_def)
    with read_prop_throws [OF Inl] show ?thesis
      by blast
  next
    case net: (Inr n)
    with assms Inr show ?thesis
      by (simp add: buildPaymentRequirements_def Let_def)
  qed
qed

lemma catch_verification_throws:
  assumes "catch_verification error reqs fx = (Some e, fx')"
  shows "\<exists>w k. e = cannot_read w k"
proof (cases error)
  case (ErrorObject e')
  with assms show ?thesis
    by (simp add: catch_verification_def)
next
  case (PlainValue v)
  show ?thesis
  proof (cases "read_prop v (js ''message'')")
    case (Inl e')
    with assms PlainValue have "e = e'"
      by (simp add: catch_verification_def)
    with read_prop_throws [OF Inl] show ?thesis
      by blast
  next
    case (Inr m)
    with assms PlainValue show ?thesis
      by (simp add: catch_verification_def)
  qed
qed

lemma handler_rejects_only:
  assumes "paymentMiddlewareHandler h payTo ps fac req fx = (Some e, fx')"
  shows "e = Error (js ''minAmountRequired must be a positive number'') \<or> (\<exists>w k. e = cannot_read w k)"
proof -
  obtain r0 where r0: "findMatchingRoute ps (req_path req) (req_method req) = Inr r0"
    by (simp add: findMatchingRoute_pick)
  show ?thesis
  proof (cases r0)
    case None
    with r0 assms show ?thesis by (simp add: handler_unmatched)
  next
    case (Some route)
    with r0 have m: "findMatchingRoute ps (req_path req) (req_method req) = Inr (Some route)"
      by simp
    show ?thesis
    proof (cases "buildPaymentRequirements payTo (config route) req")
      case (Inl e')
      with assms handler_build_throws [OF m Inl, of h fac fx] have "e = e'" by simp
      with buildPaymentRequirements_throws [OF Inl] show ?thesis by simp
    next
      case (Inr reqs)
      with assms m show ?thesis
        by (auto simp: paymentMiddlewareHandler_def dest: catch_verification_throws
            split: option.splits sum.splits if_splits)
    qed
  qed
qed

text \<open>
  Construction does not look at the transport: with a payee and routes that compile, the
  factory returns the handler for every facilitator and host.
\<close>

lemma paymentMiddleware_returns_handler:
  "truthy payTo \<Longrightarrow> computeRoutePatterns rx routes = Inr ps \<Longrightarrow>
     paymentMiddleware rx h payTo routes fac = Inr (paymentMiddlewareHandler h payTo ps fac)"
  by (simp add: paymentMiddleware_def)

text \<open>
  Claim C2, as amended. Without a transport of the caller's and without a default one
  (and also when the \<^verbatim>\<open>fetch\<close> of the facilitator holds a truthy value that is not a
  function), \<open>resolveFetch\<close> throws its error; this does not happen at construction, where
  \<open>paymentMiddleware\<close> returns the handler all the same, but in the handler, once a
  request has matched a route, brought a payment header that decodes and selected a
  requirement. There the error is caught and becomes a 402 response that carries its
  message; \<^verbatim>\<open>next\<close> is not called, and the handler's promise is never rejected with it.
\<close>

theorem transport_unavailable_is_402:
  assumes "fetch fac = Other v" and "truthy v \<or> globalThis_fetch h = Other w"
  shows "resolveFetch h fac = Inl transport_unavailable
    \<and> (truthy payTo \<and> computeRoutePatterns rx routes = Inr ps \<longrightarrow>
         paymentMiddleware rx h payTo routes fac = Inr (paymentMiddlewareHandler h payTo ps fac))
    \<and> (findMatchingRoute ps (req_path req) (req_method req) = Inr (Some route)
         \<and> buildPaymentRequirements payTo (config route) req = Inr reqs
         \<and> string_or (req_x_payment req) None = Some hdr
         \<and> decodePaymentHeader (JSON_parse h) hdr x402Version = Inr dp
         \<and> selectPaymentRequirements reqs dp = Some sel \<longrightarrow>
         paymentMiddlewareHandler h payTo ps fac req fx =
           (None, respond 402
              (challenge
                 (JStr (js ''fetch implementation is required for facilitator verification''))
                 reqs) fx))
    \<and> fst (paymentMiddlewareHandler h payTo ps fac req fx) \<noteq> Some transport_unavailable"
proof (intro conjI impI)
  show rf: "resolveFetch h fac = Inl transport_unavailable"
    using assms by (auto simp: resolveFetch_def transport_unavailable_def)
  show "paymentMiddleware rx h payTo routes fac = Inr (paymentMiddlewareHandler h payTo ps fac)"
    if "truthy payTo \<and> computeRoutePatterns rx routes = Inr ps"
    using that by (simp add: paymentMiddleware_def)
  show "paymentMiddlewareHandler h payTo ps fac req fx =
           (None, respond 402
              (challenge
                 (JStr (js ''fetch implementation is required for facilitator verification''))
                 reqs) fx)"
    if a: "findMatchingRoute ps (req_path req) (req_method req) = Inr (Some route)
         \<and> buildPaymentRequirements payTo (config route) req = Inr reqs
         \<and> string_or (req_x_payment req) None = Some hdr
         \<and> decodePaymentHeader (JSON_parse h) hdr x402Version = Inr dp
         \<and> selectPaymentRequirements reqs dp = Some sel"
  proof -
    have v: "verifyPayment h fac dp sel = Inl (ErrorObject transport_unavailable)"
      by (simp add: verifyPayment_def rf)
    have "message_or transport_unavailable (js ''Payment verification failed'') =
        JStr (js ''fetch implementation is required for facilitator verification'')"
      by (simp add: message_or_def transport_unavailable_def js_or_def js_def)
    with handler_verify_throws
      [of ps req route payTo reqs hdr h dp sel fac "ErrorObject transport_unavailable" fx]
      a v
    show ?thesis
      by (simp add: catch_error_object)
  qed
  show "fst (paymentMiddlewareHandler h payTo ps fac req fx) \<noteq> Some transport_unavailable"
  proof
    assume "fst (paymentMiddlewareHandler h payTo ps fac req fx) = Some transport_unavailable"
    then obtain fx' where
      "paymentMiddlewareHandler h payTo ps fac req fx = (Some transport_unavailable, fx')"
      by (cases "paymentMiddlewareHandler h payTo ps fac req fx") auto
    from handler_rejects_only [OF this] show False
      by (auto simp: transport_unavailable_def cannot_read_def js_def)
  qed
qed

lemma bare_verify:
  "verifyPayment bareHost bareFacilitator dp sel = Inl (ErrorObject transport_unavailable)"
  by (simp add: verifyPayment_def resolveFetch_def bareHost_def bareFacilitator_def
      transport_unavailable_def)

text \<open>
  The claim as first stated fails: with no transport at all the factory returns the
  handler, and a paid request for \<^verbatim>\<open>GET /protected\<close> gets a 402 response that carries the
  message of the error; the handler's promise is fulfilled.
\<close>

theorem transport_unavailable_counterexample:
  "paymentMiddleware RegExp_fragment bareHost payToAddress baseRoutes bareFacilitator =
     Inr (paymentMiddlewareHandler bareHost payToAddress basePatterns bareFacilitator)
   \<and> paymentMiddlewareHandler bareHost payToAddress basePatterns bareFacilitator
        protectedRequest no_effects =
       (None,
        \<lparr> status_calls = [402],
          json_calls =
            [challenge (JStr (js ''fetch implementation is required for facilitator verification''))
               [protectedRequirement]],
          next_calls = 0 \<rparr>)"
proof -
  have "paymentMiddleware RegExp_fragment bareHost payToAddress baseRoutes bareFacilitator =
     Inr (paymentMiddlewareHandler bareHost payToAddress basePatterns bareFacilitator)"
    by (simp add: paymentMiddleware_def baseRoutes_compiled) (simp add: payToAddress_def js_def)
  moreover have "paymentMiddlewareHandler bareHost payToAddress basePatterns bareFacilitator
        protectedRequest no_effects =
      catch_verification (ErrorObject transport_unavailable) [protectedRequirement] no_effects"
    by (rule handler_verify_throws
        [where route = "basePatterns ! 0" and hdr = validPaymentPayload
          and dp = decodedValidPayment and sel = protectedRequirement])
      (simp_all add: protected_path protected_match protected_requirements bareHost_parse
        decode_valid select_valid bare_verify)
  moreover have "message_or transport_unavailable (js ''Payment verification failed'') =
      JStr (js ''fetch implementation is required for facilitator verification'')"
    by (simp add: message_or_def transport_unavailable_def js_or_def js_def)
  ultimately show ?thesis
    by (simp add: catch_error_object respond_once)
qed

theorem transport_unavailable_is_402_witness:
  "fetch bareFacilitator = Other JUndefined \<and> globalThis_fetch bareHost = Other JUndefined
   \<and> resolveFetch bareHost bareFacilitator = Inl transport_unavailable
   \<and> paymentMiddleware RegExp_fragment bareHost payToAddress baseRoutes bareFacilitator =
       Inr (paymentMiddlewareHandler bareHost payToAddress basePatterns bareFacilitator)
   \<and> paymentMiddlewareHandler bareHost payToAddress basePatterns bareFacilitator
        protectedRequest no_effects =
       (None, respond 402
          (challenge (JStr (js ''fetch implementation is required for facilitator verification''))
             [protectedRequirement]) no_effects)"
proof -
  have f: "fetch bareFacilitator = Other JUndefined" "globalThis_fetch bareHost = Other JUndefined"
    by (simp_all add: bareFacilitator_def bareHost_def)
  have t: "truthy payToAddress"
    by (simp add: payToAddress_def js_def)
  from transport_unavailable_is_402
    [OF f(1) disjI2 [OF f(2)], of payToAddress RegExp_fragment baseRoutes basePatterns protectedRequest
      "basePatterns ! 0" "[protectedRequirement]" validPaymentPayload decodedValidPayment
      protectedRequirement no_effects]
    f t baseRoutes_compiled protected_path protected_match protected_requirements
    bareHost_parse decode_valid select_valid
  show ?thesis
    by simp
qed

section \<open>The handler: a payment the facilitator finds invalid\<close>

lemma rejection_props:
  "get_prop (rejection err reqs payer) (js ''error'') = err"
  "get_prop (rejection err reqs payer) (js ''payer'') = payer"
  "get_prop (rejection err reqs payer) (js ''accepts'') = JArr reqs"
  by (simp_all add: rejection_def js_def)

lemma verifyPayment_ok:
  assumes "resolveFetch h fac = Inr f"
    and "resolveFacilitatorHeaders fac = Inr hs"
    and "f (template (url fac) @ js ''/verify'') (verifyInit hs dp sel) = Inr resp"
    and "ok resp"
    and "json resp = Inr body"
  shows "verifyPayment h fac dp sel = Inr body"
  unfolding verifyPayment_def assms(1) assms(2) sum.case assms(3) by (simp add: assms(4,5))

lemma handler_invalid:
  "findMatchingRoute ps (req_path req) (req_method req) = Inr (Some route) \<Longrightarrow>
   buildPaymentRequirements payTo (config route) req = Inr reqs \<Longrightarrow>
   string_or (req_x_payment req) None = Some hdr \<Longrightarrow>
   decodePaymentHeader (JSON_parse h) hdr x402Version = Inr dp \<Longrightarrow>
   selectPaymentRequirements reqs dp = Some sel \<Longrightarrow>
   verifyPayment h fac dp sel = Inr res \<Longrightarrow>
   read_prop res (js ''isValid'') = Inr (JBool False) \<Longrightarrow>
     paymentMiddlewareHandler h payTo ps fac req fx =
       (None, respond 402
          (rejection
             (js_or (get_prop res (js ''invalidReason'')) (JStr (js ''Payment verification failed'')))
             reqs
             (js_or (get_prop res (js ''payer'')) (JStr [])))
          fx)"
  by (simp add: handler_verified)

text \<open>
  Claim C8, as amended. When the transport resolves to a response with \<^verbatim>\<open>ok\<close> set whose
  body is an object with \<^verbatim>\<open>isValid: false\<close>, the handler returns normally, does not call
  \<^verbatim>\<open>next\<close> and writes one 402 response. Its \<^verbatim>\<open>error\<close> is the \<^verbatim>\<open>invalidReason\<close> of the body
  when that is truthy, and the text \<^verbatim>\<open>Payment verification failed\<close> otherwise; its
  \<^verbatim>\<open>payer\<close> is the \<^verbatim>\<open>payer\<close> of the body when that is truthy, and the empty string
  otherwise; its \<^verbatim>\<open>accepts\<close> are the requirements of the route.
\<close>

theorem invalid_verification_is_402:
  assumes "findMatchingRoute ps (req_path req) (req_method req) = Inr (Some route)"
    and "buildPaymentRequirements payTo (config route) req = Inr reqs"
    and "string_or (req_x_payment req) None = Some hdr"
    and "decodePaymentHeader (JSON_parse h) hdr x402Version = Inr dp"
    and "selectPaymentRequirements reqs dp = Some sel"
    and "resolveFetch h fac = Inr f"
    and "resolveFacilitatorHeaders fac = Inr hs"
    and "f (template (url fac) @ js ''/verify'') (verifyInit hs dp sel) = Inr resp"
    and "ok resp"
    and "json resp = Inr (JObj result)"
    and "get_prop (JObj result) (js ''isValid'') = JBool False"
  shows "\<exists>body. paymentMiddlewareHandler h payTo ps fac req fx = (None, respond 402 body fx)
    \<and> get_prop body (js ''error'') =
        (if truthy (get_prop (JObj result) (js ''invalidReason''))
         then get_prop (JObj result) (js ''invalidReason'')
         else JStr (js ''Payment verification failed''))
    \<and> get_prop body (js ''payer'') =
        (if truthy (get_prop (JObj result) (js ''payer''))
         then get_prop (JObj result) (js ''payer'')
         else JStr [])
    \<and> get_prop body (js ''accepts'') = JArr reqs"
proof -
  let ?body = "rejection
      (js_or (get_prop (JObj result) (js ''invalidReason''))
         (JStr (js ''Payment verification failed'')))
      reqs
      (js_or (get_prop (JObj result) (js ''payer'')) (JStr []))"
  have v: "verifyPayment h fac dp sel = Inr (JObj result)"
    by (rule verifyPayment_ok [OF assms(6-10)])
  have r: "read_prop (JObj result) (js ''isValid'') = Inr (JBool False)"
    using assms(11) by (simp only: read_prop.simps)
  have H: "paymentMiddlewareHandler h payTo ps fac req fx = (None, respond 402 ?body fx)"
    by (rule handler_invalid [OF assms(1-5) v r])
  have "get_prop ?body (js ''error'') =
        (if truthy (get_prop (JObj result) (js ''invalidReason''))
         then get_prop (JObj result) (js ''invalidReason'')
         else JStr (js ''Payment verification failed''))"
    by (simp only: rejection_props js_or_def)
  moreover have "get_prop ?body (js ''payer'') =
        (if truthy (get_prop (JObj result) (js ''payer''))
         then get_prop (JObj result) (js ''payer'')
         else JStr [])"
    by (simp only: rejection_props js_or_def)
  moreover have "get_prop ?body (js ''accepts'') = JArr reqs"
    by (simp only: rejection_props)
  ultimately show ?thesis
    using H by (intro exI [of _ ?body] conjI)
qed

lemma responding_parts:
  "resolveFetch bareHost (respondingFacilitator resp) = Inr (\<lambda>u init. Inr resp)"
  "resolveFacilitatorHeaders (respondingFacilitator resp) = Inr []"
  by (simp_all add: resolveFetch_def resolveFacilitatorHeaders_def respondingFacilitator_def
      assign_entries_def js_or_def)

text \<open>
  The claim as first stated fails: for the body \<^verbatim>\<open>{ isValid: false }\<close>, whose
  \<^verbatim>\<open>invalidReason\<close> and \<^verbatim>\<open>payer\<close> are undefined, the response carries the error
  \<^verbatim>\<open>Payment verification failed\<close> and the payer \<^verbatim>\<open>''\<close>.
\<close>

theorem invalid_verification_fallback_counterexample:
  "paymentMiddlewareHandler bareHost payToAddress basePatterns
      (respondingFacilitator (okResponse bareInvalidResult)) protectedRequest no_effects =
     (None,
      \<lparr> status_calls = [402],
        json_calls =
          [rejection (JStr (js ''Payment verification failed'')) [protectedRequirement] (JStr [])],
        next_calls = 0 \<rparr>)
   \<and> get_prop bareInvalidResult (js ''isValid'') = JBool False
   \<and> get_prop bareInvalidResult (js ''invalidReason'') = JUndefined
   \<and> get_prop bareInvalidResult (js ''payer'') = JUndefined"
proof -
  have p: "get_prop bareInvalidResult (js ''isValid'') = JBool False"
    "get_prop bareInvalidResult (js ''invalidReason'') = JUndefined"
    "get_prop bareInvalidResult (js ''payer'') = JUndefined"
    by (simp_all add: bareInvalidResult_def js_def)
  have r: "read_prop bareInvalidResult (js ''isValid'') = Inr (JBool False)"
    using p(1) by (simp add: bareInvalidResult_def)
  have "paymentMiddlewareHandler bareHost payToAddress basePatterns
      (respondingFacilitator (okResponse bareInvalidResult)) protectedRequest no_effects =
     (None, respond 402
        (rejection
           (js_or (get_prop bareInvalidResult (js ''invalidReason''))
              (JStr (js ''Payment verification failed'')))
           [protectedRequirement]
           (js_or (get_prop bareInvalidResult (js ''payer'')) (JStr [])))
        no_effects)"
    by (rule handler_invalid
        [where route = "basePatterns ! 0" and hdr = validPaymentPayload
          and dp = decodedValidPayment and sel = protectedRequirement])
      (simp_all add: protected_path protected_match protected_requirements bareHost_parse
        decode_valid select_valid responding_verify r)
  with p show ?thesis
    by (simp add: respond_once js_or_def)
qed

theorem invalid_verification_is_402_witness:
  "get_prop insufficientResult (js ''isValid'') = JBool False
   \<and> (\<exists>body. paymentMiddlewareHandler bareHost payToAddress basePatterns
          (respondingFacilitator (okResponse insufficientResult)) protectedRequest no_effects =
        (None, \<lparr> status_calls = [402], json_calls = [body], next_calls = 0 \<rparr>)
      \<and> get_prop body (js ''error'') = JStr (js ''insufficient amount'')
      \<and> get_prop body (js ''payer'') = JStr (js ''payer-id'')
      \<and> get_prop body (js ''accepts'') = JArr [protectedRequirement])"
proof -
  let ?kvs = "[(js ''isValid'', JBool False),
           (js ''invalidReason'', JStr (js ''insufficient amount'')),
           (js ''payer'', JStr (js ''payer-id''))]"
  have i: "insufficientResult = JObj ?kvs"
    by (simp add: insufficientResult_def)
  have p: "get_prop (JObj ?kvs) (js ''isValid'') = JBool False"
    "get_prop (JObj ?kvs) (js ''invalidReason'') = JStr (js ''insufficient amount'')"
    "get_prop (JObj ?kvs) (js ''payer'') = JStr (js ''payer-id'')"
    by (simp_all add: js_def)
  have resp: "ok (okResponse insufficientResult)"
    "json (okResponse insufficientResult) = Inr (JObj ?kvs)"
    by (simp_all add: okResponse_def i)
  from invalid_verification_is_402
    [of basePatterns protectedRequest "basePatterns ! 0" payToAddress "[protectedRequirement]"
      validPaymentPayload bareHost decodedValidPayment protectedRequirement
      "respondingFacilitator (okResponse insufficientResult)"
      "\<lambda>u init. Inr (okResponse insufficientResult)" "[]" "okResponse insufficientResult"
      ?kvs no_effects]
    protected_path protected_match protected_requirements bareHost_parse decode_valid
    select_valid responding_parts resp p
  obtain body where "paymentMiddlewareHandler bareHost payToAddress basePatterns
          (respondingFacilitator (okResponse insufficientResult)) protectedRequest no_effects =
        (None, respond 402 body no_effects)"
    "get_prop body (js ''error'') = JStr (js ''insufficient amount'')"
    "get_prop body (js ''payer'') = JStr (js ''payer-id'')"
    "get_prop body (js ''accepts'') = JArr [protectedRequirement]"
    by (auto simp: js_def)
  with p(1) i show ?thesis
    by (auto simp: respond_once)
qed

section \<open>decodePaymentHeader: the header null\<close>

lemma check_fields_value:
  "check_fields v (before @ field # after) = Some (missing_field field)"
  if "\<not> nullish v" and "\<forall>f \<in> set before. \<not> nullish (get_prop v f)"
    and "nullish (get_prop v field)"
  using that by (induction before) (auto simp: read_prop_value)

lemma check_fields_passed:
  "check_fields v fs = None \<Longrightarrow> f \<in> set fs \<Longrightarrow> \<not> nullish v \<and> \<not> nullish (get_prop v f)"
proof (induction fs)
  case Nil
  then show ?case by simp
next
  case (Cons g fs)
  show ?case
  proof (cases "nullish v")
    case True
    from read_prop_nullish [OF this, of g] Cons.prems(1) show ?thesis
      by auto
  next
    case False
    with Cons show ?thesis
      by (auto simp: read_prop_value split: if_splits)
  qed
qed

lemma map_of_set_prop: "map_of (set_prop kvs k v) k = Some v"
  by (induction kvs) auto

text \<open>
  What holds of \<open>decodePaymentHeader\<close> for every \<^verbatim>\<open>JSON.parse\<close>: a parse error is thrown
  on; a parsed value other than null and undefined that lacks a required field gives the
  missing-field error of the first such field; and a decoded payment carries the version
  of the server.
\<close>

lemma decodePaymentHeader_parse_error:
  "parse headerValue = Inl e \<Longrightarrow> decodePaymentHeader parse headerValue v = Inl e"
  by (simp add: decodePaymentHeader_def)

lemma decodePaymentHeader_missing_field:
  assumes "parse headerValue = Inr d" and "\<not> nullish d"
    and "requiredFields = before @ field # after"
    and "\<forall>f \<in> set before. \<not> nullish (get_prop d f)"
    and "nullish (get_prop d field)"
  shows "decodePaymentHeader parse headerValue v = Inl (missing_field field)"
  using check_fields_value [OF assms(2,4,5), of after] assms(1,3)
  by (simp add: decodePaymentHeader_def)

lemma decodePaymentHeader_version:
  assumes "decodePaymentHeader parse headerValue v = Inr p"
  shows "get_prop p (js ''x402Version'') = v"
proof -
  from assms obtain d where d: "parse headerValue = Inr d"
    and c: "check_fields d requiredFields = None"
    and w: "write_prop d (js ''x402Version'') v = Inr p"
    by (auto simp: decodePaymentHeader_def split: sum.splits option.splits)
  have "js ''x402Version'' \<in> set requiredFields"
    by (simp add: requiredFields_def)
  from check_fields_passed [OF c this] obtain kvs where "d = JObj kvs"
    by (cases d) auto
  with w show ?thesis
    by (auto simp: map_of_set_prop)
qed

text \<open>
  Claim C6 (the code departs from it). The header \<^verbatim>\<open>null\<close> is valid JSON and has none of
  the required fields, and \<open>decodePaymentHeader\<close> throws neither a parse error nor the
  missing-field error: reading \<^verbatim>\<open>x402Version\<close> of null throws a TypeError. The three
  lemmas above show that the claim holds of every other header.
\<close>

theorem decodePaymentHeader_null_text:
  "parseJSON (js ''null'') = Inr JNull
   \<and> decodePaymentHeader parseJSON (js ''null'') x402Version =
       Inl (TypeError (js ''Cannot read properties of null (reading '' @ [39]
              @ js ''x402Version'' @ [39] @ js '')''))
   \<and> decodePaymentHeader parseJSON (js ''null'') x402Version \<noteq>
       Inl (missing_field (js ''x402Version''))"
  by (simp add: parse_null decode_eval) (simp add: js_def)

theorem decodePaymentHeader_null_text_witness:
  "check_fields JNull requiredFields = Some (cannot_read (js ''null'') (js ''x402Version''))
   \<and> decodePaymentHeader parseJSON (js ''null'') x402Version =
       Inl (cannot_read (js ''null'') (js ''x402Version''))"
  using decodePaymentHeader_null_text by (simp add: requiredFields_def cannot_read_def js_def)

end
